theory Spec2Isabelle
  imports Complex_Main "HOL-Library.Word" "HOL-Library.AList"
begin

section \<open>Values of the runtime\<close>

text \<open>
  A JavaScript string is a sequence of UTF-16 code units: \<open>length\<close> and \<open>slice\<close>
  count code units, so a string is a list of 16-bit words. \<open>js\<close> embeds an ASCII
  literal; the non-ASCII literals of the source are written as their code units.
\<close>

type_synonym jsstring = "16 word list"

definition js :: "string \<Rightarrow> jsstring" where
  "js s = map of_char s"

text \<open>
  Values of type \<open>unknown\<close> that a caller attaches to a log call or passes to a console
  method. An optional member or argument that is absent is \<open>None\<close> in the records
  below, never \<open>Some JUndefined\<close>.
\<close>

datatype jsvalue =
    JUndefined
  | JNull
  | JBool bool
  | JNum int
  | JStr jsstring
  | JArr "jsvalue list"
  | JObj "(jsstring \<times> jsvalue) list"

text \<open>
  \<open>Record<string, unknown>\<close>: the properties of an object in insertion order.
  Assigning an existing key keeps its position, a new key goes last
  (\<open>AList.update\<close>). The object spread \<open>{ ...a, ...b }\<close> assigns the
  properties of \<open>b\<close> in order on top of \<open>a\<close>.
\<close>

type_synonym jsobject = "(jsstring \<times> jsvalue) list"

definition spread :: "jsobject \<Rightarrow> jsobject \<Rightarrow> jsobject" where
  "spread a b = foldl (\<lambda>acc kv. AList.update (fst kv) (snd kv) acc) a b"

text \<open>
  Template literals print an integral number in decimal (the numbers printed here are
  file indices and millisecond clock values, all below \<open>10^21\<close>).
\<close>

fun digits :: "nat \<Rightarrow> jsstring" where
  "digits n = (if n < 10 then [of_nat (48 + n)] else digits (n div 10) @ [of_nat (48 + n mod 10)])"

declare digits.simps [simp del]

definition numberToString :: "int \<Rightarrow> jsstring" where
  "numberToString i = (if i < 0 then js ''-'' @ digits (nat (- i)) else digits (nat i))"

text \<open>\<open>Array.prototype.join\<close>.\<close>

fun join :: "jsstring \<Rightarrow> jsstring list \<Rightarrow> jsstring" where
  "join sep [] = []"
| "join sep [x] = x"
| "join sep (x # y # ys) = x @ sep @ join sep (y # ys)"

text \<open>\<open>String.prototype.includes\<close>.\<close>

fun str_includes :: "jsstring \<Rightarrow> jsstring \<Rightarrow> bool" where
  "str_includes [] pat = (pat = [])"
| "str_includes (x # xs) pat = (take (length pat) (x # xs) = pat \<or> str_includes xs pat)"

text \<open>\<open>String.prototype.lastIndexOf\<close> for a one-unit pattern: \<open>-1\<close> when absent.\<close>

primrec lastIndexOf_from :: "16 word \<Rightarrow> jsstring \<Rightarrow> int \<Rightarrow> int \<Rightarrow> int" where
  "lastIndexOf_from c [] i found = found"
| "lastIndexOf_from c (x # xs) i found = lastIndexOf_from c xs (i + 1) (if x = c then i else found)"

definition lastIndexOf :: "jsstring \<Rightarrow> 16 word \<Rightarrow> int" where
  "lastIndexOf s c = lastIndexOf_from c s 0 (- 1)"

text \<open>
  \<open>String.prototype.substring\<close>: both indices are clamped to \<open>[0, length]\<close> and
  swapped when the first is the larger.
\<close>

definition substring :: "jsstring \<Rightarrow> int \<Rightarrow> int \<Rightarrow> jsstring" where
  "substring s a b =
     (let n = int (length s);
          a' = max 0 (min a n);
          b' = max 0 (min b n);
          lo = min a' b';
          hi = max a' b'
      in take (nat (hi - lo)) (drop (nat lo) s))"

section \<open>Data model\<close>

datatype LogLevel = Debug | Info | Warn | Error | Fatal

fun LOG_LEVELS :: "LogLevel \<Rightarrow> nat" where
  "LOG_LEVELS Debug = 0"
| "LOG_LEVELS Info = 1"
| "LOG_LEVELS Warn = 2"
| "LOG_LEVELS Error = 3"
| "LOG_LEVELS Fatal = 4"

definition MAX_PERFORMANCE_ENTRIES :: nat where
  "MAX_PERFORMANCE_ENTRIES = 1000"

definition DEFAULT_MAX_MESSAGE_LENGTH :: int where
  "DEFAULT_MAX_MESSAGE_LENGTH = 32 * 1024"

datatype LogFormat = TextFormat | JsonFormat | ColorFormat

datatype RotateStrategy = SizeStrategy | TimeStrategy | SizeTimeStrategy

text \<open>The \<open>file\<close> member of the output configuration.\<close>

record FileConfig =
  path :: jsstring
  rotate' :: "bool option"
  strategy :: "RotateStrategy option"
  maxSize :: "int option"
  maxFiles :: "int option"
  rotateInterval :: "int option"
  compress :: "bool option"

text \<open>
  \<open>LogOutputConfig\<close>. The custom sink is user code: it is called with the formatted
  line and either completes (\<open>True\<close>) or throws or rejects (\<open>False\<close>).
\<close>

record LogOutputConfig =
  "auto" :: "bool option"
  console :: "bool option"
  "file" :: "FileConfig option"
  custom :: "(jsstring \<Rightarrow> bool) option"

text \<open>
  \<open>LogEntry\<close>; the fields carry the prefix \<open>e_\<close> because the configuration has
  fields of the same names.
\<close>

record LogEntry =
  e_timestamp :: jsstring
  e_level :: LogLevel
  e_message :: jsstring
  e_data :: "jsvalue option"
  e_error :: "jsvalue option"
  e_tags :: "jsstring list option"
  e_context :: "jsobject option"

text \<open>
  \<open>LogFilterConfig\<close>. The custom predicate is user code: it answers \<open>Some b\<close>, or
  \<open>None\<close> when it throws.
\<close>

record LogFilterConfig =
  includeTags :: "jsstring list option"
  excludeTags :: "jsstring list option"
  f_custom :: "(LogEntry \<Rightarrow> bool option) option"

record LogSamplingConfig =
  rate :: rat
  levels :: "LogLevel list option"

text \<open>
  \<open>LoggerConfig\<close> as a caller passes it: every field optional (prefix \<open>c_\<close>).
\<close>

record LoggerConfig =
  c_level :: "LogLevel option"
  c_format :: "LogFormat option"
  c_output :: "LogOutputConfig option"
  c_color :: "bool option"
  c_showTime :: "bool option"
  c_showLevel :: "bool option"
  c_tags :: "jsstring list option"
  c_context :: "jsobject option"
  c_filter :: "LogFilterConfig option"
  c_sampling :: "LogSamplingConfig option"
  c_maxMessageLength :: "int option"

text \<open>
  \<open>this.config\<close> of a Logger: the required fields are filled in by the constructor;
  \<open>filter\<close>, \<open>sampling\<close> and \<open>maxMessageLength\<close> stay optional.
\<close>

record Config =
  level :: LogLevel
  format :: LogFormat
  "output" :: LogOutputConfig
  color :: bool
  showTime :: bool
  showLevel :: bool
  tags :: "jsstring list"
  "context" :: jsobject
  filter' :: "LogFilterConfig option"
  sampling :: "LogSamplingConfig option"
  maxMessageLength :: "int option"

text \<open>
  \<open>this.config\<close> is passed where a \<open>LoggerConfig\<close> is expected
  (\<open>shouldUseColor(this.config, false)\<close>): the same object, every required field
  present.
\<close>

definition asLoggerConfig :: "Config \<Rightarrow> LoggerConfig" where
  "asLoggerConfig c =
     \<lparr> c_level = Some (level c), c_format = Some (format c), c_output = Some (output c),
       c_color = Some (color c), c_showTime = Some (showTime c), c_showLevel = Some (showLevel c),
       c_tags = Some (tags c), c_context = Some (context c), c_filter = filter' c,
       c_sampling = sampling c, c_maxMessageLength = maxMessageLength c \<rparr>"

record PerformanceData =
  operation :: jsstring
  startTime :: int
  endTime :: "int option"
  duration :: "int option"
  data :: "jsobject option"

text \<open>
  The state of a Logger. \<open>fileHandle\<close> and \<open>fileWriter\<close> record whether the
  member is defined. \<open>performanceData\<close> is a \<open>Map\<close>: its entries in insertion order.
  \<open>timeRotationTimerId\<close> holds the interval of the running timer.
\<close>

record Logger =
  config :: Config
  fileHandle :: bool
  fileWriter :: bool
  filePath :: "jsstring option"
  performanceData :: "(jsstring \<times> PerformanceData) list"
  logCount :: nat
  timeRotationTimerId :: "int option"
  includeTagsSet :: "jsstring set option"
  excludeTagsSet :: "jsstring set option"

text \<open>
  What the runtime answers during one operation: \<open>isTerminal()\<close>, \<open>getEnv("NO_COLOR")\<close>,
  \<open>new Date().toISOString()\<close>, \<open>Math.random()\<close>, what \<open>safeStringify\<close> returns for a
  value (the text of \<open>JSON.stringify\<close>, or the placeholder when that throws), the text
  \<open>stack || message\<close> of a value given as error, and for the file-system calls whether
  they throw (\<open>stat\<close> answers a size or throws). A \<open>close\<close> that throws is caught and
  ignored wherever the source calls it, so it has no entry here.
\<close>

record Env =
  isTerminal :: bool
  NO_COLOR :: "jsstring option"
  nowISO :: jsstring
  random :: rat
  stringify :: "jsvalue \<Rightarrow> jsstring"
  errorText :: "jsvalue \<Rightarrow> jsstring"
  write_throws :: bool
  stat_size :: "int option"
  rename_throws :: "jsstring \<Rightarrow> jsstring \<Rightarrow> bool"
  mkdir_throws :: bool
  open_throws :: bool

text \<open>
  The calls a Logger makes to the outside, in order. The console calls go to
  \<open>getConsoleForOutput()\<close>; only the first argument of \<open>console.error\<close> is kept.
\<close>

datatype effect =
    ConsoleLog jsstring
  | ConsoleWarn jsstring
  | ConsoleError jsstring
  | FileWrite jsstring
  | CustomSink jsstring
  | WriterClose
  | HandleClose
  | Rename jsstring jsstring
  | Mkdir jsstring
  | Open jsstring
  | Stat jsstring

section \<open>Environment policy\<close>

definition isTTY :: "Env \<Rightarrow> bool" where
  "isTTY env = isTerminal env"

text \<open>\<open>getEnv("NO_COLOR")\<close> as a condition: set and not the empty string.\<close>

definition noColorSet :: "Env \<Rightarrow> bool" where
  "noColorSet env = (case NO_COLOR env of None \<Rightarrow> False | Some v \<Rightarrow> v \<noteq> [])"

definition shouldUseColor :: "Env \<Rightarrow> LoggerConfig \<Rightarrow> bool \<Rightarrow> bool" where
  "shouldUseColor env cfg isFileOutput =
     (if isFileOutput then False
      else case c_color cfg of
        Some c \<Rightarrow> c
      | None \<Rightarrow>
          if noColorSet env then False
          else if c_format cfg = Some ColorFormat \<and> isTTY env then True
          else False)"

definition DEFAULT_AUTO_FILE_PATH :: jsstring where
  "DEFAULT_AUTO_FILE_PATH = js ''./logs/app.log''"

definition resolveOutputConfig :: "Env \<Rightarrow> LogOutputConfig \<Rightarrow> LogOutputConfig" where
  "resolveOutputConfig env out =
     (if auto out \<noteq> Some True
      then out\<lparr>console := Some (case console out of None \<Rightarrow> True | Some b \<Rightarrow> b)\<rparr>
      else if isTTY env
      then \<lparr> auto = Some True, console = Some True, file = None, custom = custom out \<rparr>
      else \<lparr> auto = Some True, console = Some False,
             file = Some (case file out of
                      None \<Rightarrow> \<lparr> path = DEFAULT_AUTO_FILE_PATH, rotate' = None, strategy = None,
                                maxSize = None, maxFiles = None, rotateInterval = None,
                                compress = None \<rparr>
                    | Some fc \<Rightarrow> fc),
             custom = custom out \<rparr>)"

section \<open>Formatter\<close>

definition ESC :: "16 word" where
  "ESC = 0x1B"

definition ANSI_reset :: jsstring where "ANSI_reset = ESC # js ''[0m''"
definition ANSI_bold :: jsstring where "ANSI_bold = ESC # js ''[1m''"
definition ANSI_red :: jsstring where "ANSI_red = ESC # js ''[31m''"
definition ANSI_yellow :: jsstring where "ANSI_yellow = ESC # js ''[33m''"
definition ANSI_blue :: jsstring where "ANSI_blue = ESC # js ''[34m''"
definition ANSI_gray :: jsstring where "ANSI_gray = ESC # js ''[90m''"

fun getLevelColor :: "LogLevel \<Rightarrow> bool \<Rightarrow> jsstring" where
  "getLevelColor l False = []"
| "getLevelColor Debug True = ANSI_gray"
| "getLevelColor Info True = ANSI_blue"
| "getLevelColor Warn True = ANSI_yellow"
| "getLevelColor Error True = ANSI_red"
| "getLevelColor Fatal True = ANSI_red @ ANSI_bold"

text \<open>The level as the string the source holds, and \<open>level.toUpperCase()\<close>.\<close>

fun levelString :: "LogLevel \<Rightarrow> jsstring" where
  "levelString Debug = js ''debug''"
| "levelString Info = js ''info''"
| "levelString Warn = js ''warn''"
| "levelString Error = js ''error''"
| "levelString Fatal = js ''fatal''"

fun levelUpperCase :: "LogLevel \<Rightarrow> jsstring" where
  "levelUpperCase Debug = js ''DEBUG''"
| "levelUpperCase Info = js ''INFO''"
| "levelUpperCase Warn = js ''WARN''"
| "levelUpperCase Error = js ''ERROR''"
| "levelUpperCase Fatal = js ''FATAL''"

definition safeStringify :: "Env \<Rightarrow> jsvalue \<Rightarrow> jsstring" where
  "safeStringify env v = stringify env v"

definition formatText :: "Env \<Rightarrow> LogEntry \<Rightarrow> bool \<Rightarrow> bool \<Rightarrow> bool \<Rightarrow> jsstring" where
  "formatText env entry useColor showT showL =
     (let levelColor = getLevelColor (e_level entry) useColor;
          reset = (if useColor then ANSI_reset else []);
          levelLabel = (if showL
                        then js ''['' @ levelColor @ levelUpperCase (e_level entry) @ reset @ js ''] ''
                        else []);
          out0 = (if showT
                  then e_timestamp entry @ js '' '' @ levelLabel @ e_message entry
                  else levelLabel @ e_message entry);
          out1 = (case e_tags entry of
                    None \<Rightarrow> out0
                  | Some ts \<Rightarrow> if length ts > 0
                               then out0 @ js '' ['' @ join (js '', '') ts @ js '']''
                               else out0);
          out2 = (case e_context entry of
                    None \<Rightarrow> out1
                  | Some c \<Rightarrow> if length c > 0
                              then out1 @ js '' '' @ safeStringify env (JObj c)
                              else out1);
          out3 = (case e_data entry of
                    None \<Rightarrow> out2
                  | Some d \<Rightarrow> out2 @ js '' '' @ safeStringify env d)
      in case e_error entry of
           None \<Rightarrow> out3
         | Some e \<Rightarrow> out3 @ [0x0A] @ errorText env e)"

text \<open>The entry as the object that \<open>JSON.stringify\<close> sees: undefined members are left out.\<close>

definition entryObject :: "LogEntry \<Rightarrow> jsvalue" where
  "entryObject entry =
     JObj ([(js ''timestamp'', JStr (e_timestamp entry)),
            (js ''level'', JStr (levelString (e_level entry))),
            (js ''message'', JStr (e_message entry))]
           @ (case e_data entry of None \<Rightarrow> [] | Some d \<Rightarrow> [(js ''data'', d)])
           @ (case e_error entry of None \<Rightarrow> [] | Some e \<Rightarrow> [(js ''error'', e)])
           @ (case e_tags entry of None \<Rightarrow> [] | Some ts \<Rightarrow> [(js ''tags'', JArr (map JStr ts))])
           @ (case e_context entry of None \<Rightarrow> [] | Some c \<Rightarrow> [(js ''context'', JObj c)]))"

definition formatJSON :: "Env \<Rightarrow> LogEntry \<Rightarrow> jsstring" where
  "formatJSON env entry = safeStringify env (entryObject entry)"

fun formatLog :: "Env \<Rightarrow> LogEntry \<Rightarrow> LogFormat \<Rightarrow> bool \<Rightarrow> bool \<Rightarrow> bool \<Rightarrow> jsstring" where
  "formatLog env entry JsonFormat useColor showT showL = formatJSON env entry"
| "formatLog env entry ColorFormat useColor showT showL =
     formatText env entry useColor showT showL"
| "formatLog env entry TextFormat useColor showT showL =
     formatText env entry useColor showT showL"

section \<open>File output manager\<close>

definition isAllowedLogPath :: "jsstring \<Rightarrow> bool" where
  "isAllowedLogPath p = (if str_includes p (js ''..'') then False else True)"

text \<open>
  The message \<open>U+62D2 U+7EDD U+4F7F U+7528 U+65E5 U+5FD7 U+8DEF U+5F84 U+FF08 U+542B
  U+8DEF U+5F84 U+904D U+5386 U+FF09\<close> (log path refused, it contains a traversal),
  followed by a colon and a space.
\<close>

definition MSG_path_refused :: jsstring where
  "MSG_path_refused =
     [0x62D2, 0x7EDD, 0x4F7F, 0x7528, 0x65E5, 0x5FD7, 0x8DEF, 0x5F84, 0xFF08, 0x542B,
      0x8DEF, 0x5F84, 0x904D, 0x5386, 0xFF09, 0x003A, 0x0020]"

text \<open>
  The message \<open>U+65E0 U+6CD5 U+6253 U+5F00 U+65E5 U+5FD7 U+6587 U+4EF6\<close> (cannot
  open the log file), followed by a space.
\<close>

definition MSG_cannot_open :: jsstring where
  "MSG_cannot_open = [0x65E0, 0x6CD5, 0x6253, 0x5F00, 0x65E5, 0x5FD7, 0x6587, 0x4EF6, 0x0020]"

text \<open>
  \<open>initFileOutput\<close>: the path check, \<open>mkdir\<close> of the directory part when there is
  one, \<open>open\<close> for append. A throwing \<open>mkdir\<close> or \<open>open\<close> is caught and reported,
  and the members stay as they were.
\<close>

definition initFileOutput :: "Env \<Rightarrow> Logger \<Rightarrow> Logger \<times> effect list" where
  "initFileOutput env L =
     (case file (output (config L)) of
        None \<Rightarrow> (L, [])
      | Some fc \<Rightarrow>
          let p = path fc in
          if \<not> isAllowedLogPath p then (L, [ConsoleError (MSG_path_refused @ p)])
          else
            let dir = substring p 0 (lastIndexOf p 0x2F);
                mk = (if dir \<noteq> [] then [Mkdir dir] else []);
                failed = ConsoleError (MSG_cannot_open @ p @ js '':'')
            in if dir \<noteq> [] \<and> mkdir_throws env then (L, mk @ [failed])
               else if open_throws env then (L, mk @ [Open p, failed])
               else (L\<lparr>fileHandle := True, fileWriter := True, filePath := Some p\<rparr>, mk @ [Open p]))"

text \<open>\<open>strategy?.includes("time")\<close> on the strategies "size", "time", "size-time".\<close>

fun strategyIncludesTime :: "RotateStrategy option \<Rightarrow> bool" where
  "strategyIncludesTime None = False"
| "strategyIncludesTime (Some SizeStrategy) = False"
| "strategyIncludesTime (Some TimeStrategy) = True"
| "strategyIncludesTime (Some SizeTimeStrategy) = True"

definition startTimeRotation :: "Logger \<Rightarrow> Logger" where
  "startTimeRotation L =
     (let dflt = 24 * 60 * 60 * 1000;
          interval = (case file (output (config L)) of
                        None \<Rightarrow> dflt
                      | Some fc \<Rightarrow> (case rotateInterval fc of
                                     None \<Rightarrow> dflt
                                   | Some i \<Rightarrow> if i = 0 then dflt else i))
      in L\<lparr>timeRotationTimerId := Some interval\<rparr>)"

text \<open>
  The loop \<open>for (let i = maxFiles - 1; i >= 1; i--)\<close> of \<open>rotateLog\<close>, started at
  \<open>i\<close>: one \<open>rename\<close> per index, whose failure is caught and ignored.
\<close>

fun shiftBackups :: "jsstring \<Rightarrow> nat \<Rightarrow> effect list" where
  "shiftBackups p 0 = []"
| "shiftBackups p (Suc k) =
     Rename (p @ js ''.'' @ numberToString (int (Suc k)))
            (p @ js ''.'' @ numberToString (int (Suc k) + 1))
     # shiftBackups p k"

text \<open>
  The warning \<open>U+65E5 U+5FD7 U+538B U+7F29 U+529F U+80FD U+9700 U+8981 U+5916 U+90E8
  U+5DE5 U+5177 U+652F U+6301\<close> (log compression needs external tooling).
\<close>

definition MSG_compress :: jsstring where
  "MSG_compress =
     [0x65E5, 0x5FD7, 0x538B, 0x7F29, 0x529F, 0x80FD, 0x9700, 0x8981, 0x5916, 0x90E8,
      0x5DE5, 0x5177, 0x652F, 0x6301]"

text \<open>The message \<open>U+65E5 U+5FD7 U+8F6E U+8F6C U+5931 U+8D25\<close> (log rotation failed), and a colon.\<close>

definition MSG_rotate_failed :: jsstring where
  "MSG_rotate_failed = [0x65E5, 0x5FD7, 0x8F6E, 0x8F6C, 0x5931, 0x8D25, 0x003A]"

text \<open>
  \<open>rotateLog\<close>. Without \<open>filePath\<close> it returns at once. Otherwise the writer and the
  handle are closed when present (a throwing \<open>close\<close> is caught and ignored, so it has
  no case of its own) and cleared; the numbered backups are shifted; the active file is
  renamed to \<open>path.1\<close>. When that \<open>rename\<close> throws, the \<open>catch\<close> block reports it
  and calls \<open>initFileOutput\<close>; otherwise the compression warning is printed when asked
  for and \<open>initFileOutput\<close> is called.
\<close>

definition rotateLog :: "Env \<Rightarrow> int \<Rightarrow> bool \<Rightarrow> Logger \<Rightarrow> Logger \<times> effect list" where
  "rotateLog env maxFiles' compress' L =
     (case filePath L of
        None \<Rightarrow> (L, [])
      | Some p \<Rightarrow>
          let closeWriter = (if fileWriter L then [WriterClose] else []);
              closeHandle = (if fileHandle L then [HandleClose] else []);
              L1 = L\<lparr>fileWriter := False, fileHandle := False\<rparr>;
              shifts = shiftBackups p (nat (maxFiles' - 1));
              rotatedPath = p @ js ''.1'';
              done = closeWriter @ closeHandle @ shifts @ [Rename p rotatedPath];
              reopened = initFileOutput env L1
          in if rename_throws env p rotatedPath
             then (fst reopened, done @ [ConsoleError MSG_rotate_failed] @ snd reopened)
             else (fst reopened,
                   done @ (if compress' then [ConsoleWarn MSG_compress] else []) @ snd reopened))"

text \<open>The message \<open>U+68C0 U+67E5 U+65E5 U+5FD7 U+8F6E U+8F6C U+5931 U+8D25\<close> (checking the rotation failed), and a colon.\<close>

definition MSG_check_failed :: jsstring where
  "MSG_check_failed = [0x68C0, 0x67E5, 0x65E5, 0x5FD7, 0x8F6E, 0x8F6C, 0x5931, 0x8D25, 0x003A]"

definition checkSizeRotation :: "Env \<Rightarrow> Logger \<Rightarrow> Logger \<times> effect list" where
  "checkSizeRotation env L =
     (case file (output (config L)) of
        None \<Rightarrow> (L, [])
      | Some fc \<Rightarrow>
          (case filePath L of
             None \<Rightarrow> (L, [])
           | Some p \<Rightarrow>
               let maxSize' = (case maxSize fc of None \<Rightarrow> 10 * 1024 * 1024 | Some m \<Rightarrow> m);
                   maxFiles' = (case maxFiles fc of None \<Rightarrow> 5 | Some m \<Rightarrow> m);
                   compress' = (case compress fc of None \<Rightarrow> False | Some c \<Rightarrow> c)
               in (case stat_size env of
                     None \<Rightarrow> (L, [Stat p, ConsoleError MSG_check_failed])
                   | Some size' \<Rightarrow>
                       if size' \<ge> maxSize'
                       then (let r = rotateLog env maxFiles' compress' L in (fst r, Stat p # snd r))
                       else (L, [Stat p]))))"

text \<open>The callback of the rotation timer: \<open>maxFiles || 5\<close>, \<open>compress || false\<close>.\<close>

definition timeRotationTick :: "Env \<Rightarrow> Logger \<Rightarrow> Logger \<times> effect list" where
  "timeRotationTick env L =
     (case file (output (config L)) of
        None \<Rightarrow> (L, [])
      | Some fc \<Rightarrow>
          if rotate' fc = Some True \<and> strategyIncludesTime (strategy fc)
          then rotateLog env
                 (case maxFiles fc of None \<Rightarrow> 5 | Some m \<Rightarrow> if m = 0 then 5 else m)
                 (case compress fc of None \<Rightarrow> False | Some c \<Rightarrow> c) L
          else (L, []))"

section \<open>Filter, sampler and truncation\<close>

definition shouldLog :: "Logger \<Rightarrow> LogLevel \<Rightarrow> bool" where
  "shouldLog L lvl = (LOG_LEVELS lvl \<ge> LOG_LEVELS (level (config L)))"

definition updateFilterSets :: "Logger \<Rightarrow> Logger" where
  "updateFilterSets L =
     L\<lparr> includeTagsSet :=
          (case filter' (config L) of
             None \<Rightarrow> None
           | Some f \<Rightarrow> (case includeTags f of
                          None \<Rightarrow> None
                        | Some ts \<Rightarrow> if length ts \<noteq> 0 then Some (set ts) else None)),
        excludeTagsSet :=
          (case filter' (config L) of
             None \<Rightarrow> None
           | Some f \<Rightarrow> (case excludeTags f of
                          None \<Rightarrow> None
                        | Some ts \<Rightarrow> if length ts \<noteq> 0 then Some (set ts) else None)) \<rparr>"

text \<open>\<open>entry.tags?.some((tag) => s.has(tag))\<close>, read as a condition.\<close>

definition someTagIn :: "jsstring set \<Rightarrow> LogEntry \<Rightarrow> bool" where
  "someTagIn s entry = (case e_tags entry of None \<Rightarrow> False | Some ts \<Rightarrow> list_ex (\<lambda>t. t \<in> s) ts)"

definition shouldFilterByTags :: "Logger \<Rightarrow> LogEntry \<Rightarrow> bool option" where
  "shouldFilterByTags L entry =
     (case filter' (config L) of
        None \<Rightarrow> Some True
      | Some f \<Rightarrow>
          if (case excludeTagsSet L of None \<Rightarrow> False | Some s \<Rightarrow> s \<noteq> {} \<and> someTagIn s entry)
          then Some False
          else if (case includeTagsSet L of None \<Rightarrow> False | Some s \<Rightarrow> s \<noteq> {} \<and> \<not> someTagIn s entry)
          then Some False
          else (case f_custom f of
                  Some p \<Rightarrow> p entry
                | None \<Rightarrow> Some True))"

definition shouldSample :: "Env \<Rightarrow> Logger \<Rightarrow> LogLevel \<Rightarrow> bool \<times> Logger" where
  "shouldSample env L lvl =
     (case sampling (config L) of
        None \<Rightarrow> (True, L)
      | Some s \<Rightarrow>
          if (case levels s of None \<Rightarrow> False | Some ls \<Rightarrow> length ls > 0 \<and> lvl \<notin> set ls)
          then (True, L)
          else (random env < rate s, L\<lparr>logCount := logCount L + 1\<rparr>))"

text \<open>The truncation marker is the one code unit \<open>U+2026\<close>.\<close>

definition ELLIPSIS :: jsstring where
  "ELLIPSIS = [0x2026]"

definition truncateMessageIfNeeded :: "Logger \<Rightarrow> LogEntry \<Rightarrow> LogEntry" where
  "truncateMessageIfNeeded L entry =
     (let mx = (case maxMessageLength (config L) of None \<Rightarrow> 0 | Some m \<Rightarrow> m)
      in if mx \<le> 0 \<or> int (length (e_message entry)) \<le> mx then entry
         else entry\<lparr>e_message := take (nat mx) (e_message entry) @ ELLIPSIS\<rparr>)"

section \<open>Logger: the pipeline of one call\<close>

text \<open>
  The three dispatch blocks of \<open>writeLog\<close>, one definition each. Console: the line is
  formatted with \<open>shouldUseColor(this.config, false)\<close> and written with
  \<open>getConsoleForOutput().log\<close>.
\<close>

definition consoleOutput :: "Env \<Rightarrow> Logger \<Rightarrow> LogEntry \<Rightarrow> effect list" where
  "consoleOutput env L finalEntry =
     (if console (output (config L)) = Some True
      then [ConsoleLog (formatLog env finalEntry (format (config L))
                          (shouldUseColor env (asLoggerConfig (config L)) False)
                          (showTime (config L)) (showLevel (config L)))]
      else [])"

text \<open>
  File: plain text and a newline through the writer; a throwing write is caught and
  reported; after a write the size is checked when rotation is on and the strategy
  (\<open>"size"\<close> when unset) is "size" or "size-time".
\<close>

definition fileOutput :: "Env \<Rightarrow> Logger \<Rightarrow> LogEntry \<Rightarrow> Logger \<times> effect list" where
  "fileOutput env L finalEntry =
     (case file (output (config L)) of
        None \<Rightarrow> (L, [])
      | Some fc \<Rightarrow>
          if \<not> fileWriter L then (L, [])
          else
            let line = formatLog env finalEntry TextFormat False
                         (showTime (config L)) (showLevel (config L)) @ [0x0A];
                strategy' = (case strategy fc of None \<Rightarrow> SizeStrategy | Some s \<Rightarrow> s)
            in if write_throws env
               then (L, [FileWrite line, ConsoleError (js ''logger file output error'')])
               else if rotate' fc = Some True
                       \<and> (strategy' = SizeStrategy \<or> strategy' = SizeTimeStrategy)
               then (let r = checkSizeRotation env L in (fst r, FileWrite line # snd r))
               else (L, [FileWrite line]))"

text \<open>Custom sink: called with the line in the configured format; its failure is reported.\<close>

definition customOutput :: "Env \<Rightarrow> Logger \<Rightarrow> LogEntry \<Rightarrow> effect list" where
  "customOutput env L finalEntry =
     (case custom (output (config L)) of
        None \<Rightarrow> []
      | Some sink \<Rightarrow>
          let line = formatLog env finalEntry (format (config L))
                       (shouldUseColor env (asLoggerConfig (config L)) False)
                       (showTime (config L)) (showLevel (config L))
          in if sink line then [CustomSink line]
             else [CustomSink line, ConsoleError (js ''logger custom output error'')])"

text \<open>The merge step of \<open>writeLog\<close>: Logger tags first, call context on top.\<close>

definition mergeEntry :: "Logger \<Rightarrow> LogEntry \<Rightarrow> LogEntry" where
  "mergeEntry L entry =
     entry\<lparr> e_tags := Some (tags (config L) @ (case e_tags entry of None \<Rightarrow> [] | Some ts \<Rightarrow> ts)),
            e_context := Some (spread (context (config L))
                                 (case e_context entry of None \<Rightarrow> [] | Some c \<Rightarrow> c)) \<rparr>"

text \<open>The dispatch of the final entry to the three targets, in the order of the source.\<close>

definition dispatch :: "Env \<Rightarrow> Logger \<Rightarrow> LogEntry \<Rightarrow> Logger \<times> effect list" where
  "dispatch env L finalEntry =
     (let toConsole = consoleOutput env L finalEntry;
          toFile = fileOutput env L finalEntry;
          L2 = fst toFile;
          toCustom = customOutput env L2 finalEntry
      in (L2, toConsole @ snd toFile @ toCustom))"

text \<open>
  \<open>writeLog\<close>. The result is \<open>None\<close> when the promise rejects, which only a throwing
  filter predicate causes; otherwise the Logger afterwards and the calls made.
\<close>

definition writeLog :: "Env \<Rightarrow> Logger \<Rightarrow> LogEntry \<Rightarrow> (Logger \<times> effect list) option" where
  "writeLog env L entry =
     (if \<not> shouldLog L (e_level entry) then Some (L, [])
      else
        let merged = mergeEntry L entry in
        (case shouldFilterByTags L merged of
           None \<Rightarrow> None
         | Some passed \<Rightarrow>
             if \<not> passed then Some (L, [])
             else
               let sampled = shouldSample env L (e_level merged);
                   L1 = snd sampled
               in if \<not> fst sampled then Some (L1, [])
                  else Some (dispatch env L1 (truncateMessageIfNeeded L1 merged))))"

text \<open>
  \<open>log\<close> (named \<open>log'\<close> here): builds the entry and starts \<open>writeLog\<close>; a rejection is
  reported on the console and never reaches the caller.
\<close>

definition log' ::
  "Env \<Rightarrow> Logger \<Rightarrow> LogLevel \<Rightarrow> jsstring \<Rightarrow> jsvalue option \<Rightarrow> jsvalue option \<Rightarrow> Logger \<times> effect list"
where
  "log' env L lvl msg d err =
     (case writeLog env L \<lparr> e_timestamp = nowISO env, e_level = lvl, e_message = msg,
                             e_data = d, e_error = err, e_tags = None, e_context = None \<rparr> of
        None \<Rightarrow> (L, [ConsoleError (js ''writeLog error'')])
      | Some r \<Rightarrow> r)"

definition debug ::
  "Env \<Rightarrow> Logger \<Rightarrow> jsstring \<Rightarrow> jsvalue option \<Rightarrow> jsvalue option \<Rightarrow> Logger \<times> effect list" where
  "debug env L msg d err = log' env L Debug msg d err"

definition info ::
  "Env \<Rightarrow> Logger \<Rightarrow> jsstring \<Rightarrow> jsvalue option \<Rightarrow> jsvalue option \<Rightarrow> Logger \<times> effect list" where
  "info env L msg d err = log' env L Info msg d err"

definition warn ::
  "Env \<Rightarrow> Logger \<Rightarrow> jsstring \<Rightarrow> jsvalue option \<Rightarrow> jsvalue option \<Rightarrow> Logger \<times> effect list" where
  "warn env L msg d err = log' env L Warn msg d err"

definition error ::
  "Env \<Rightarrow> Logger \<Rightarrow> jsstring \<Rightarrow> jsvalue option \<Rightarrow> jsvalue option \<Rightarrow> Logger \<times> effect list" where
  "error env L msg d err = log' env L Error msg d err"

definition fatal ::
  "Env \<Rightarrow> Logger \<Rightarrow> jsstring \<Rightarrow> jsvalue option \<Rightarrow> jsvalue option \<Rightarrow> Logger \<times> effect list" where
  "fatal env L msg d err = log' env L Fatal msg d err"

definition setLevel :: "LogLevel \<Rightarrow> Logger \<Rightarrow> Logger" where
  "setLevel lvl L = L\<lparr>config := (config L)\<lparr>level := lvl\<rparr>\<rparr>"

definition setFilter :: "LogFilterConfig \<Rightarrow> Logger \<Rightarrow> Logger" where
  "setFilter f L = updateFilterSets (L\<lparr>config := (config L)\<lparr>filter' := Some f\<rparr>\<rparr>)"

text \<open>
  \<open>getFilter\<close> returns \<open>this.config.filter\<close> itself, and the constructor and
  \<open>setFilter\<close> keep the object the caller passed: the caller and the Logger share the
  filter object. \<open>mutateFilter f'\<close> is a caller changing that object in place so that
  it reads \<open>f'\<close> (pushing onto \<open>excludeTags\<close>, replacing \<open>custom\<close>, ...). No method
  of the Logger runs, so the two tag sets stay as they are. Without a filter object there
  is nothing to change.
\<close>

definition mutateFilter :: "LogFilterConfig \<Rightarrow> Logger \<Rightarrow> Logger" where
  "mutateFilter f' L =
     (case filter' (config L) of
        None \<Rightarrow> L
      | Some f \<Rightarrow> L\<lparr>config := (config L)\<lparr>filter' := Some f'\<rparr>\<rparr>)"

definition setSampling :: "LogSamplingConfig \<Rightarrow> Logger \<Rightarrow> Logger" where
  "setSampling s L = L\<lparr>config := (config L)\<lparr>sampling := Some s\<rparr>\<rparr>"

definition setContext :: "jsobject \<Rightarrow> Logger \<Rightarrow> Logger" where
  "setContext ctx L = L\<lparr>config := (config L)\<lparr>context := spread (context (config L)) ctx\<rparr>\<rparr>"

definition addTag :: "jsstring \<Rightarrow> Logger \<Rightarrow> Logger" where
  "addTag tag L =
     (if tag \<in> set (tags (config L)) then L
      else L\<lparr>config := (config L)\<lparr>tags := tags (config L) @ [tag]\<rparr>\<rparr>)"

text \<open>\<open>removeTag\<close>: \<open>indexOf\<close> and \<open>splice\<close> take out the first occurrence.\<close>

definition removeTag :: "jsstring \<Rightarrow> Logger \<Rightarrow> Logger" where
  "removeTag tag L = L\<lparr>config := (config L)\<lparr>tags := remove1 tag (tags (config L))\<rparr>\<rparr>"

text \<open>\<open>close\<close>: the timer is cleared, the writer and the handle are closed and cleared.\<close>

definition close :: "Logger \<Rightarrow> Logger \<times> effect list" where
  "close L =
     (L\<lparr>timeRotationTimerId := None, fileWriter := False, fileHandle := False\<rparr>,
      (if fileWriter L then [WriterClose] else []) @ (if fileHandle L then [HandleClose] else []))"

section \<open>Logger: construction\<close>

text \<open>
  The constructor: first the assignment of \<open>this.config\<close> with its defaults, then
  \<open>updateFilterSets\<close> and the file output. \<open>initFileOutput\<close> is started and not
  awaited; the model runs it to its end before anything else happens.
\<close>

definition constructConfig :: "Env \<Rightarrow> LoggerConfig \<Rightarrow> Config" where
  "constructConfig env cfg =
     (let rawOutput = (case c_output cfg of
                         None \<Rightarrow> \<lparr> auto = None, console = Some True, file = None, custom = None \<rparr>
                       | Some out \<Rightarrow> out);
          resolvedOutput = resolveOutputConfig env rawOutput
      in \<lparr> level = (case c_level cfg of None \<Rightarrow> Info | Some l \<Rightarrow> l),
           format = (case c_format cfg of None \<Rightarrow> TextFormat | Some f \<Rightarrow> f),
           output = resolvedOutput,
           color = (case c_color cfg of
                      None \<Rightarrow> (c_format cfg = Some ColorFormat \<and> isTTY env)
                    | Some c \<Rightarrow> c),
           showTime = (case c_showTime cfg of None \<Rightarrow> True | Some b \<Rightarrow> b),
           showLevel = (case c_showLevel cfg of None \<Rightarrow> True | Some b \<Rightarrow> b),
           tags = (case c_tags cfg of None \<Rightarrow> [] | Some ts \<Rightarrow> ts),
           context = (case c_context cfg of None \<Rightarrow> [] | Some c \<Rightarrow> c),
           filter' = c_filter cfg,
           sampling = c_sampling cfg,
           maxMessageLength = Some (case c_maxMessageLength cfg of
                                      None \<Rightarrow> DEFAULT_MAX_MESSAGE_LENGTH
                                    | Some m \<Rightarrow> m) \<rparr>)"

definition Logger_constructor :: "Env \<Rightarrow> LoggerConfig \<Rightarrow> Logger \<times> effect list" where
  "Logger_constructor env cfg =
     (let L0 = \<lparr> config = constructConfig env cfg,
                 fileHandle = False, fileWriter = False, filePath = None,
                 performanceData = [], logCount = 0, timeRotationTimerId = None,
                 includeTagsSet = None, excludeTagsSet = None \<rparr>;
          L1 = updateFilterSets L0
      in case file (output (config L1)) of
           None \<Rightarrow> (L1, [])
         | Some fc \<Rightarrow>
             let opened = initFileOutput env L1
             in (if rotate' fc = Some True \<and> strategyIncludesTime (strategy fc)
                 then startTimeRotation (fst opened) else fst opened,
                 snd opened))"

definition createLogger :: "Env \<Rightarrow> LoggerConfig \<Rightarrow> Logger \<times> effect list" where
  "createLogger env cfg = Logger_constructor env cfg"

section \<open>Performance tracker\<close>

text \<open>
  \<open>startPerformance\<close>. The two reads of \<open>Date.now()\<close> (for the id and for the start
  time) and the text of \<open>Math.random()\<close> are arguments. \<open>Map.set\<close> keeps the position
  of a key that is already there and appends a new one; \<open>keys().next().value\<close> is the
  key of the first entry.
\<close>

definition startPerformance ::
  "int \<Rightarrow> jsstring \<Rightarrow> int \<Rightarrow> jsstring \<Rightarrow> jsobject option \<Rightarrow> Logger \<Rightarrow> jsstring \<times> Logger" where
  "startPerformance nowId rnd nowStart op d L =
     (let evicted =
            (if length (performanceData L) \<ge> MAX_PERFORMANCE_ENTRIES
             then (case performanceData L of
                     [] \<Rightarrow> performanceData L
                   | first # rest \<Rightarrow> AList.delete (fst first) (performanceData L))
             else performanceData L);
          id' = op @ js ''-'' @ numberToString nowId @ js ''-'' @ rnd
      in (id', L\<lparr>performanceData :=
                    AList.update id' \<lparr> operation = op, startTime = nowStart, endTime = None,
                                        duration = None, data = d \<rparr> evicted\<rparr>))"

text \<open>
  The texts \<open>U+6027 U+80FD U+76D1 U+63A7 ID U+4E0D U+5B58 U+5728\<close> (performance id does
  not exist), \<open>U+6027 U+80FD U+76D1 U+63A7\<close> (performance monitoring) and
  \<open>U+8017 U+65F6\<close> (took), with the punctuation and spaces of the source.
\<close>

definition MSG_perf_missing :: jsstring where
  "MSG_perf_missing =
     [0x6027, 0x80FD, 0x76D1, 0x63A7, 0x0020, 0x0049, 0x0044, 0x0020, 0x4E0D, 0x5B58, 0x5728,
      0x003A, 0x0020]"

definition MSG_perf :: jsstring where
  "MSG_perf = [0x6027, 0x80FD, 0x76D1, 0x63A7, 0x003A, 0x0020]"

definition MSG_took :: jsstring where
  "MSG_took = [0x0020, 0x8017, 0x65F6, 0x0020]"

text \<open>The message and the data of the log that \<open>endPerformance\<close> writes for a record.\<close>

definition perfMessage :: "PerformanceData \<Rightarrow> int \<Rightarrow> jsstring" where
  "perfMessage perfData endTime' =
     MSG_perf @ operation perfData @ MSG_took
       @ numberToString (endTime' - startTime perfData) @ js ''ms''"

definition perfLogData :: "PerformanceData \<Rightarrow> int \<Rightarrow> jsobject" where
  "perfLogData perfData endTime' =
     AList.update (js ''endTime'') (JNum endTime')
       (AList.update (js ''startTime'') (JNum (startTime perfData))
          (AList.update (js ''duration'') (JNum (endTime' - startTime perfData))
             (case data perfData of None \<Rightarrow> [] | Some d \<Rightarrow> d)))"

text \<open>
  \<open>endPerformance\<close>; \<open>endTime'\<close> is its read of \<open>Date.now()\<close>. The record found is
  updated in place with the end time and the duration, the log is written through the
  method of the level, and the record is deleted.
\<close>

definition endPerformance ::
  "Env \<Rightarrow> int \<Rightarrow> jsstring \<Rightarrow> LogLevel \<Rightarrow> Logger \<Rightarrow> Logger \<times> effect list" where
  "endPerformance env endTime' id' lvl L =
     (case map_of (performanceData L) id' of
        None \<Rightarrow> warn env L (MSG_perf_missing @ id') None None
      | Some perfData \<Rightarrow>
          let duration' = endTime' - startTime perfData;
              L1 = L\<lparr>performanceData :=
                       AList.update id' (perfData\<lparr>endTime := Some endTime', duration := Some duration'\<rparr>)
                         (performanceData L)\<rparr>;
              message = perfMessage perfData endTime';
              data' = Some (JObj (perfLogData perfData endTime'));
              logged = (case lvl of
                          Debug \<Rightarrow> debug env L1 message data' None
                        | Info \<Rightarrow> info env L1 message data' None
                        | Warn \<Rightarrow> warn env L1 message data' None
                        | Error \<Rightarrow> error env L1 message data' None
                        | Fatal \<Rightarrow> fatal env L1 message data' None);
              L2 = fst logged
          in (L2\<lparr>performanceData := AList.delete id' (performanceData L2)\<rparr>, snd logged))"

section \<open>Console redirector\<close>

text \<open>
  A Logger that the redirector forwards to: the module's default \<open>logger\<close> or one the
  caller passes.
\<close>

datatype LoggerRef = DefaultLogger | LoggerRef nat

text \<open>
  A function installed as a console method: one that was there before (named by a
  number), such a function bound to the console with \<open>bind\<close>, or a forwarder that
  \<open>redirectConsoleToLogger\<close> created for a Logger and one of its methods.
\<close>

datatype ConsoleFn = Existing nat | Bound ConsoleFn | Forwarder LoggerRef LogLevel

text \<open>What calling a console method does.\<close>

datatype call =
    CallExisting nat "jsvalue list"
  | CallLogger LoggerRef LogLevel jsstring "jsvalue option"

text \<open>
  \<open>formatConsoleArgs\<close>; \<open>str\<close> is \<open>String(first)\<close> for a first argument that is
  not a string. An argument \<open>undefined\<close> in second place is no data.
\<close>

definition messageOf :: "(jsvalue \<Rightarrow> jsstring) \<Rightarrow> jsvalue \<Rightarrow> jsstring" where
  "messageOf str first = (case first of JStr s \<Rightarrow> s | _ \<Rightarrow> str first)"

fun formatConsoleArgs :: "(jsvalue \<Rightarrow> jsstring) \<Rightarrow> jsvalue list \<Rightarrow> jsstring \<times> jsvalue option" where
  "formatConsoleArgs str [] = ([], None)"
| "formatConsoleArgs str [first] = (messageOf str first, None)"
| "formatConsoleArgs str [first, second] =
     (messageOf str first, if second = JUndefined then None else Some second)"
| "formatConsoleArgs str (first # rest) = (messageOf str first, Some (JArr rest))"

fun invoke :: "(jsvalue \<Rightarrow> jsstring) \<Rightarrow> ConsoleFn \<Rightarrow> jsvalue list \<Rightarrow> call" where
  "invoke str (Existing f) args = CallExisting f args"
| "invoke str (Bound f) args = invoke str f args"
| "invoke str (Forwarder lg lvl) args =
     CallLogger lg lvl (fst (formatConsoleArgs str args)) (snd (formatConsoleArgs str args))"

record Console =
  con_log :: ConsoleFn
  con_info :: ConsoleFn
  con_warn :: ConsoleFn
  con_error :: ConsoleFn
  con_debug :: ConsoleFn

text \<open>The process-wide state: \<open>globalThis.console\<close> and the module's \<open>_originalConsole\<close>.\<close>

record Global =
  g_console :: Console
  originalConsole :: "Console option"

definition getConsoleForOutput :: "Global \<Rightarrow> Console" where
  "getConsoleForOutput g = (case originalConsole g of Some c \<Rightarrow> c | None \<Rightarrow> g_console g)"

text \<open>
  \<open>redirectConsoleToLogger\<close>; the function it returns is \<open>restoreConsole\<close> itself.
\<close>

definition redirectConsoleToLogger :: "LoggerRef option \<Rightarrow> Global \<Rightarrow> Global" where
  "redirectConsoleToLogger targetLogger g =
     (let lg = (case targetLogger of Some l \<Rightarrow> l | None \<Rightarrow> DefaultLogger)
      in \<lparr> g_console =
             \<lparr> con_log = Forwarder lg Info, con_info = Forwarder lg Info,
               con_warn = Forwarder lg Warn, con_error = Forwarder lg Error,
               con_debug = Forwarder lg Debug \<rparr>,
           originalConsole =
             Some \<lparr> con_log = Bound (con_log (g_console g)),
                    con_info = Bound (con_info (g_console g)),
                    con_warn = Bound (con_warn (g_console g)),
                    con_error = Bound (con_error (g_console g)),
                    con_debug = Bound (con_debug (g_console g)) \<rparr> \<rparr>)"

definition restoreConsole :: "Global \<Rightarrow> Global" where
  "restoreConsole g =
     (case originalConsole g of
        Some c \<Rightarrow> \<lparr> g_console = c, originalConsole = None \<rparr>
      | None \<Rightarrow> g)"

section \<open>States a Logger can be in\<close>

text \<open>
  The states a Logger goes through: the one the constructor builds, and every state that
  a public method, the rotation timer or a caller's change of the shared filter object
  leads to from there. (The sampling object is shared in the same way; changing it in
  place gives the states that \<open>setSampling\<close> gives.)
\<close>

inductive reachable :: "Logger \<Rightarrow> bool" where
  constructed: "reachable (fst (Logger_constructor env cfg))"
| logged: "reachable L \<Longrightarrow> reachable (fst (log' env L lvl msg d err))"
| level_set: "reachable L \<Longrightarrow> reachable (setLevel lvl L)"
| filter_set: "reachable L \<Longrightarrow> reachable (setFilter f L)"
| filter_mutated: "reachable L \<Longrightarrow> reachable (mutateFilter f' L)"
| sampling_set: "reachable L \<Longrightarrow> reachable (setSampling s L)"
| context_set: "reachable L \<Longrightarrow> reachable (setContext ctx L)"
| tag_added: "reachable L \<Longrightarrow> reachable (addTag tag L)"
| tag_removed: "reachable L \<Longrightarrow> reachable (removeTag tag L)"
| started: "reachable L \<Longrightarrow> reachable (snd (startPerformance nowId rnd nowStart op pd L))"
| ended: "reachable L \<Longrightarrow> reachable (fst (endPerformance env endTime' id' lvl L))"
| ticked: "reachable L \<Longrightarrow> reachable (fst (timeRotationTick env L))"
| closed: "reachable L \<Longrightarrow> reachable (fst (close L))"

text \<open>
  A fact that holds of every such state: \<open>filePath\<close>, once set, is the path of the
  configured file and has passed the path check.
\<close>

definition pathConsistent :: "Logger \<Rightarrow> bool" where
  "pathConsistent L =
     (case filePath L of
        None \<Rightarrow> True
      | Some p \<Rightarrow> (case file (output (config L)) of
                     None \<Rightarrow> False
                   | Some fc \<Rightarrow> path fc = p \<and> isAllowedLogPath p))"



section \<open>The pipeline as the specification words it\<close>

text \<open>The entry that \<open>log\<close> builds for a call.\<close>

definition callEntry ::
  "Env \<Rightarrow> LogLevel \<Rightarrow> jsstring \<Rightarrow> jsvalue option \<Rightarrow> jsvalue option \<Rightarrow> LogEntry" where
  "callEntry env lvl msg d err =
     \<lparr> e_timestamp = nowISO env, e_level = lvl, e_message = msg, e_data = d, e_error = err,
       e_tags = None, e_context = None \<rparr>"

text \<open>
  A call is admitted when it passes the level gate, the tag filter (on the merged entry)
  and the sampler.
\<close>

definition admitted :: "Env \<Rightarrow> Logger \<Rightarrow> LogEntry \<Rightarrow> bool" where
  "admitted env L entry =
     (shouldLog L (e_level entry)
      \<and> shouldFilterByTags L (mergeEntry L entry) = Some True
      \<and> fst (shouldSample env L (e_level entry)))"

text \<open>
  The line for the console and the custom sink, in the configured format and colour, and
  the line for the file, plain text and a newline.
\<close>

abbreviation consoleLine :: "Env \<Rightarrow> Logger \<Rightarrow> LogEntry \<Rightarrow> jsstring" where
  "consoleLine env L e \<equiv>
     formatLog env e (format (config L)) (shouldUseColor env (asLoggerConfig (config L)) False)
       (showTime (config L)) (showLevel (config L))"

abbreviation fileLine :: "Env \<Rightarrow> Logger \<Rightarrow> LogEntry \<Rightarrow> jsstring" where
  "fileLine env L e \<equiv>
     formatLog env e TextFormat False (showTime (config L)) (showLevel (config L)) @ [0x0A]"

text \<open>
  The entry \<open>sent\<close> has been written to every active target of the Logger: among the
  calls \<open>effects\<close> there is the console write when the console is on, the write to the
  file when a file is configured and its writer is open, and the call of the custom sink
  when there is one.
\<close>

definition writtenToTargets :: "Env \<Rightarrow> Logger \<Rightarrow> LogEntry \<Rightarrow> effect list \<Rightarrow> bool" where
  "writtenToTargets env L sent effects =
     ((if console (output (config L)) = Some True
       then ConsoleLog (consoleLine env L sent) \<in> set effects else True)
      \<and> (if file (output (config L)) \<noteq> None \<and> fileWriter L
          then FileWrite (fileLine env L sent) \<in> set effects else True)
      \<and> (if custom (output (config L)) \<noteq> None
          then CustomSink (consoleLine env L sent) \<in> set effects else True))"

section \<open>The tag filter as the specification words it\<close>



section \<open>Concrete inputs\<close>

definition exampleEnv :: Env where
  "exampleEnv =
     \<lparr> isTerminal = True, NO_COLOR = Some (js ''1''), nowISO = js ''2026-01-01T00:00:00.000Z'',
       random = 1 / 2, stringify = (\<lambda>v. js ''{}''), errorText = (\<lambda>v. js ''Error''),
       write_throws = False, stat_size = Some 0, rename_throws = (\<lambda>a b. False),
       mkdir_throws = False, open_throws = False \<rparr>"

definition emptyConfig :: LoggerConfig where
  "emptyConfig =
     \<lparr> c_level = None, c_format = None, c_output = None, c_color = None, c_showTime = None,
       c_showLevel = None, c_tags = None, c_context = None, c_filter = None, c_sampling = None,
       c_maxMessageLength = None \<rparr>"

text \<open>\<open>new Logger(cfg)\<close> in the example environment.\<close>

definition newLogger :: "LoggerConfig \<Rightarrow> Logger" where
  "newLogger cfg = fst (Logger_constructor exampleEnv cfg)"

definition warnLogger :: Logger where
  "warnLogger = newLogger (emptyConfig\<lparr>c_level := Some Warn\<rparr>)"

definition shortLogger :: Logger where
  "shortLogger = newLogger (emptyConfig\<lparr>c_maxMessageLength := Some 3\<rparr>)"

definition unlimitedLogger :: Logger where
  "unlimitedLogger = newLogger (emptyConfig\<lparr>c_maxMessageLength := Some 0\<rparr>)"

definition entryWith :: "LogLevel \<Rightarrow> jsstring \<Rightarrow> LogEntry" where
  "entryWith lvl msg =
     \<lparr> e_timestamp = nowISO exampleEnv, e_level = lvl, e_message = msg, e_data = None,
       e_error = None, e_tags = None, e_context = None \<rparr>"


definition sampledLogger :: Logger where
  "sampledLogger = newLogger (emptyConfig\<lparr>c_sampling := Some \<lparr> rate = 1, levels = Some [Info] \<rparr>\<rparr>)"



definition errorLogger :: Logger where
  "errorLogger = newLogger (emptyConfig\<lparr>c_level := Some Error\<rparr>)"

definition timedLogger :: Logger where
  "timedLogger =
     snd (startPerformance 1000 (js ''0.5'') 1000 (js ''load'')
            (Some [(js ''rows'', JNum 7)]) (newLogger emptyConfig))"

definition colorLogger :: Logger where
  "colorLogger = newLogger (emptyConfig\<lparr>c_format := Some ColorFormat\<rparr>)"

text \<open>The console of the runtime before any redirection, not redirected.\<close>

definition nativeGlobal :: Global where
  "nativeGlobal =
     \<lparr> g_console = \<lparr> con_log = Existing 0, con_info = Existing 1, con_warn = Existing 2,
                     con_error = Existing 3, con_debug = Existing 4 \<rparr>,
       originalConsole = None \<rparr>"


definition timedRecord :: PerformanceData where
  "timedRecord =
     \<lparr> operation = js ''load'', startTime = 1000, endTime = None, duration = None,
       data = Some [(js ''rows'', JNum 7)] \<rparr>"

text \<open>A Logger on which \<open>n\<close> timers were started and none ended.\<close>

fun fillTimers :: "nat \<Rightarrow> Logger" where
  "fillTimers 0 = newLogger emptyConfig"
| "fillTimers (Suc n) = snd (startPerformance 0 [] 0 (replicate n 0x61) None (fillTimers n))"

definition fillId :: "nat \<Rightarrow> jsstring" where
  "fillId n = replicate n 0x61 @ js ''-0-''"

definition jobRecord :: PerformanceData where
  "jobRecord = \<lparr>operation = js ''job'', startTime = 5, endTime = None, duration = None, data = None\<rparr>"

definition exampleFile :: FileConfig where
  "exampleFile =
     \<lparr> path = js ''logs/app.log'', rotate' = Some True, strategy = Some TimeStrategy,
       maxSize = None, maxFiles = Some 3, rotateInterval = None, compress = None \<rparr>"

definition fileConfig :: LoggerConfig where
  "fileConfig =
     emptyConfig\<lparr>c_output :=
       Some \<lparr> auto = None, console = Some False, file = Some exampleFile, custom = None \<rparr>\<rparr>"

text \<open>A Logger whose file was opened, and one whose first \<open>open\<close> threw.\<close>

definition fileLogger :: Logger where
  "fileLogger = newLogger fileConfig"

definition unopenedLogger :: Logger where
  "unopenedLogger = fst (Logger_constructor (exampleEnv\<lparr>open_throws := True\<rparr>) fileConfig)"

definition renameFailsEnv :: Env where
  "renameFailsEnv = exampleEnv\<lparr>rename_throws := (\<lambda>a b. True)\<rparr>"

text \<open>A Logger with the console, an open file and a custom sink as targets.\<close>

definition allTargetsConfig :: LoggerConfig where
  "allTargetsConfig =
     emptyConfig\<lparr>c_output :=
       Some \<lparr> auto = None, console = Some True, file = Some exampleFile,
              custom = Some (\<lambda>line. True) \<rparr>\<rparr>"

definition allTargetsLogger :: Logger where
  "allTargetsLogger = newLogger allTargetsConfig"

definition shortTargetsLogger :: Logger where
  "shortTargetsLogger = newLogger (allTargetsConfig\<lparr>c_maxMessageLength := Some 3\<rparr>)"

text \<open>
  The Logger with every target active and one running timer: the record
  \<open>timedRecord\<close> under the id \<open>load-1000-0.5\<close>.
\<close>

definition timedTargetsLogger :: Logger where
  "timedTargetsLogger =
     snd (startPerformance 1000 (js ''0.5'') 1000 (js ''load'')
            (Some [(js ''rows'', JNum 7)]) allTargetsLogger)"





text \<open>A \<open>String(first)\<close> for the examples, and the console after two redirections in a row.\<close>

definition exampleString :: "jsvalue \<Rightarrow> jsstring" where
  "exampleString v = js ''[object Object]''"

definition twiceRedirected :: Global where
  "twiceRedirected =
     redirectConsoleToLogger (Some (LoggerRef 2))
       (redirectConsoleToLogger (Some (LoggerRef 1)) nativeGlobal)"

section \<open>Properties\<close>

lemmas example_defs = exampleEnv_def emptyConfig_def newLogger_def Logger_constructor_def
  constructConfig_def resolveOutputConfig_def updateFilterSets_def isTTY_def

lemmas pipeline_defs = log'_def writeLog_def shouldLog_def shouldFilterByTags_def
  shouldSample_def mergeEntry_def dispatch_def consoleOutput_def fileOutput_def customOutput_def
  truncateMessageIfNeeded_def DEFAULT_MAX_MESSAGE_LENGTH_def formatText_def shouldUseColor_def
  asLoggerConfig_def spread_def js_def

subsection \<open>The level gate\<close>

text \<open>
  C4, as stated, asks a Logger at minimum level \<open>L2\<close> to suppress a call at every
  \<open>L1 \<le> L2\<close>. At \<open>L1 = L2 = info\<close> the call is written to the console.
\<close>

theorem C4_counterexample:
  "LOG_LEVELS Info \<le> LOG_LEVELS Info
   \<and> snd (log' exampleEnv (newLogger (emptyConfig\<lparr>c_level := Some Info\<rparr>)) Info (js ''x'') None None)
       = [ConsoleLog (js ''2026-01-01T00:00:00.000Z [INFO] x'')]"
  by (simp add: example_defs pipeline_defs)

text \<open>
  C4, amended: the gate is \<open>LOG_LEVELS lvl \<ge> LOG_LEVELS (level config)\<close>. With no
  filter and no sampling, a call at a level strictly below the configured minimum writes
  nothing and leaves the Logger as it was, and a call at the minimum or above is
  dispatched to the targets with the merged and truncated entry.
\<close>

theorem C4_level_gate:
  assumes "filter' (config L) = None" and "sampling (config L) = None"
  shows "shouldLog L lvl = (LOG_LEVELS lvl \<ge> LOG_LEVELS (level (config L)))
       \<and> (LOG_LEVELS lvl < LOG_LEVELS (level (config L)) \<longrightarrow>
            log' env L lvl msg d err = (L, []))
       \<and> (LOG_LEVELS (level (config L)) \<le> LOG_LEVELS lvl \<longrightarrow>
            log' env L lvl msg d err =
              dispatch env L (truncateMessageIfNeeded L (mergeEntry L
                \<lparr> e_timestamp = nowISO env, e_level = lvl, e_message = msg,
                  e_data = d, e_error = err, e_tags = None, e_context = None \<rparr>)))"
  using assms
  by (simp add: log'_def writeLog_def shouldLog_def shouldFilterByTags_def shouldSample_def
      mergeEntry_def)

theorem C4_level_gate_witness:
  "filter' (config warnLogger) = None \<and> sampling (config warnLogger) = None
   \<and> LOG_LEVELS Info < LOG_LEVELS (level (config warnLogger))
   \<and> log' exampleEnv warnLogger Info (js ''x'') None None = (warnLogger, [])
   \<and> LOG_LEVELS (level (config warnLogger)) \<le> LOG_LEVELS Error
   \<and> log' exampleEnv warnLogger Error (js ''y'') None None =
       dispatch exampleEnv warnLogger (truncateMessageIfNeeded warnLogger (mergeEntry warnLogger
         \<lparr> e_timestamp = nowISO exampleEnv, e_level = Error, e_message = js ''y'',
           e_data = None, e_error = None, e_tags = None, e_context = None \<rparr>))"
proof -
  have f: "filter' (config warnLogger) = None"
    by (simp add: warnLogger_def example_defs)
  have s: "sampling (config warnLogger) = None"
    by (simp add: warnLogger_def example_defs)
  have l: "level (config warnLogger) = Warn"
    by (simp add: warnLogger_def example_defs)
  show ?thesis
    using C4_level_gate [OF f s, of Info exampleEnv "js ''x''" None None]
      C4_level_gate [OF f s, of Error exampleEnv "js ''y''" None None] f s l
    by simp
qed

subsection \<open>What the pipeline leaves alone\<close>

lemma initFileOutput_frame:
  "config (fst (initFileOutput env L)) = config L"
  "performanceData (fst (initFileOutput env L)) = performanceData L"
  "logCount (fst (initFileOutput env L)) = logCount L"
  "includeTagsSet (fst (initFileOutput env L)) = includeTagsSet L"
  "excludeTagsSet (fst (initFileOutput env L)) = excludeTagsSet L"
  by (simp_all add: initFileOutput_def Let_def split: option.splits)

lemma rotateLog_frame:
  "config (fst (rotateLog env mf c L)) = config L"
  "performanceData (fst (rotateLog env mf c L)) = performanceData L"
  "logCount (fst (rotateLog env mf c L)) = logCount L"
  "includeTagsSet (fst (rotateLog env mf c L)) = includeTagsSet L"
  "excludeTagsSet (fst (rotateLog env mf c L)) = excludeTagsSet L"
  by (simp_all add: rotateLog_def Let_def initFileOutput_frame split: option.splits)

lemma checkSizeRotation_frame:
  "config (fst (checkSizeRotation env L)) = config L"
  "performanceData (fst (checkSizeRotation env L)) = performanceData L"
  "logCount (fst (checkSizeRotation env L)) = logCount L"
  "includeTagsSet (fst (checkSizeRotation env L)) = includeTagsSet L"
  "excludeTagsSet (fst (checkSizeRotation env L)) = excludeTagsSet L"
  by (simp_all add: checkSizeRotation_def Let_def rotateLog_frame split: option.splits)

lemma fileOutput_frame:
  "config (fst (fileOutput env L e)) = config L"
  "performanceData (fst (fileOutput env L e)) = performanceData L"
  "logCount (fst (fileOutput env L e)) = logCount L"
  "includeTagsSet (fst (fileOutput env L e)) = includeTagsSet L"
  "excludeTagsSet (fst (fileOutput env L e)) = excludeTagsSet L"
  by (simp_all add: fileOutput_def Let_def checkSizeRotation_frame split: option.splits)

lemma dispatch_frame:
  "config (fst (dispatch env L e)) = config L"
  "performanceData (fst (dispatch env L e)) = performanceData L"
  "logCount (fst (dispatch env L e)) = logCount L"
  "includeTagsSet (fst (dispatch env L e)) = includeTagsSet L"
  "excludeTagsSet (fst (dispatch env L e)) = excludeTagsSet L"
  by (simp_all add: dispatch_def Let_def fileOutput_frame)

lemma shouldSample_frame:
  "config (snd (shouldSample env L lvl)) = config L"
  "performanceData (snd (shouldSample env L lvl)) = performanceData L"
  "fileWriter (snd (shouldSample env L lvl)) = fileWriter L"
  "fileHandle (snd (shouldSample env L lvl)) = fileHandle L"
  "filePath (snd (shouldSample env L lvl)) = filePath L"
  "includeTagsSet (snd (shouldSample env L lvl)) = includeTagsSet L"
  "excludeTagsSet (snd (shouldSample env L lvl)) = excludeTagsSet L"
  by (simp_all add: shouldSample_def split: option.splits)

lemma writeLog_frame:
  assumes "writeLog env L e = Some r"
  shows "config (fst r) = config L" and "performanceData (fst r) = performanceData L"
    and "includeTagsSet (fst r) = includeTagsSet L" and "excludeTagsSet (fst r) = excludeTagsSet L"
  using assms
  by (auto simp add: writeLog_def Let_def dispatch_frame shouldSample_frame
      split: if_splits option.splits)

lemma log'_frame:
  "config (fst (log' env L lvl msg d err)) = config L"
  "performanceData (fst (log' env L lvl msg d err)) = performanceData L"
  "includeTagsSet (fst (log' env L lvl msg d err)) = includeTagsSet L"
  "excludeTagsSet (fst (log' env L lvl msg d err)) = excludeTagsSet L"
  by (auto simp add: log'_def writeLog_frame split: option.splits)

text \<open>The pipeline does not read the performance map.\<close>

lemma initFileOutput_perf:
  "initFileOutput env (L\<lparr>performanceData := x\<rparr>) =
     ((fst (initFileOutput env L))\<lparr>performanceData := x\<rparr>, snd (initFileOutput env L))"
  by (simp add: initFileOutput_def Let_def split: option.splits)

lemma rotateLog_perf:
  "rotateLog env mf c (L\<lparr>performanceData := x\<rparr>) =
     ((fst (rotateLog env mf c L))\<lparr>performanceData := x\<rparr>, snd (rotateLog env mf c L))"
proof -
  have swap: "L\<lparr>performanceData := x, fileWriter := False, fileHandle := False\<rparr>
          = (L\<lparr>fileWriter := False, fileHandle := False\<rparr>)\<lparr>performanceData := x\<rparr>"
    by (cases L) simp
  show ?thesis
    by (simp add: rotateLog_def Let_def swap initFileOutput_perf split: option.splits)
qed

lemma checkSizeRotation_perf:
  "checkSizeRotation env (L\<lparr>performanceData := x\<rparr>) =
     ((fst (checkSizeRotation env L))\<lparr>performanceData := x\<rparr>, snd (checkSizeRotation env L))"
  by (simp add: checkSizeRotation_def Let_def rotateLog_perf split: option.splits)

lemma fileOutput_perf:
  "fileOutput env (L\<lparr>performanceData := x\<rparr>) e =
     ((fst (fileOutput env L e))\<lparr>performanceData := x\<rparr>, snd (fileOutput env L e))"
  by (auto simp add: fileOutput_def Let_def checkSizeRotation_perf split: option.splits)

lemma consoleOutput_perf:
  "consoleOutput env (L\<lparr>performanceData := x\<rparr>) e = consoleOutput env L e"
  by (simp add: consoleOutput_def)

lemma customOutput_perf:
  "customOutput env (L\<lparr>performanceData := x\<rparr>) e = customOutput env L e"
  by (simp add: customOutput_def split: option.splits)

lemma dispatch_perf:
  "dispatch env (L\<lparr>performanceData := x\<rparr>) e =
     ((fst (dispatch env L e))\<lparr>performanceData := x\<rparr>, snd (dispatch env L e))"
  by (simp add: dispatch_def Let_def fileOutput_perf consoleOutput_perf customOutput_perf)

lemma shouldSample_perf:
  "shouldSample env (L\<lparr>performanceData := x\<rparr>) lvl =
     (fst (shouldSample env L lvl), (snd (shouldSample env L lvl))\<lparr>performanceData := x\<rparr>)"
  by (simp add: shouldSample_def split: option.splits)

lemma writeLog_perf:
  "writeLog env (L\<lparr>performanceData := x\<rparr>) e =
     map_option (\<lambda>r. ((fst r)\<lparr>performanceData := x\<rparr>, snd r)) (writeLog env L e)"
  by (simp add: writeLog_def Let_def shouldLog_def shouldFilterByTags_def mergeEntry_def
      shouldSample_perf dispatch_perf truncateMessageIfNeeded_def split: option.splits)

lemma log'_perf:
  "log' env (L\<lparr>performanceData := x\<rparr>) lvl msg d err =
     ((fst (log' env L lvl msg d err))\<lparr>performanceData := x\<rparr>, snd (log' env L lvl msg d err))"
  by (simp add: log'_def writeLog_perf split: option.splits)

lemma level_method:
  "(case lvl of
      Debug \<Rightarrow> debug env L msg d err
    | Info \<Rightarrow> info env L msg d err
    | Warn \<Rightarrow> warn env L msg d err
    | Error \<Rightarrow> error env L msg d err
    | Fatal \<Rightarrow> fatal env L msg d err) = log' env L lvl msg d err"
  by (cases lvl) (simp_all add: debug_def info_def warn_def error_def fatal_def)

lemma endPerformance_found:
  assumes "map_of (performanceData L) id' = Some pd"
  shows "endPerformance env t id' lvl L =
           ((fst (log' env L lvl (perfMessage pd t) (Some (JObj (perfLogData pd t))) None))
              \<lparr>performanceData := AList.delete id' (performanceData L)\<rparr>,
            snd (log' env L lvl (perfMessage pd t) (Some (JObj (perfLogData pd t))) None))"
  using assms
  by (simp add: endPerformance_def Let_def level_method log'_perf log'_frame delete_update_same)

lemma endPerformance_missing:
  assumes "map_of (performanceData L) id' = None"
  shows "endPerformance env t id' lvl L = log' env L Warn (MSG_perf_missing @ id') None None"
  using assms by (simp add: endPerformance_def warn_def)

subsection \<open>Facts of every state a Logger can be in\<close>

lemma constructor_fresh:
  "performanceData (fst (Logger_constructor env cfg)) = []"
  by (simp add: Logger_constructor_def Let_def updateFilterSets_def initFileOutput_frame
      startTimeRotation_def split: option.splits)

lemma timeRotationTick_frame:
  "config (fst (timeRotationTick env L)) = config L"
  "performanceData (fst (timeRotationTick env L)) = performanceData L"
  "includeTagsSet (fst (timeRotationTick env L)) = includeTagsSet L"
  "excludeTagsSet (fst (timeRotationTick env L)) = excludeTagsSet L"
  by (simp_all add: timeRotationTick_def rotateLog_frame split: option.splits)

lemma length_update_le: "length (AList.update k v al) \<le> Suc (length al)"
  by (induction al) auto

lemma startPerformance_bounded:
  assumes "length (performanceData L) \<le> MAX_PERFORMANCE_ENTRIES"
  shows "length (performanceData (snd (startPerformance a r b op d L))) \<le> MAX_PERFORMANCE_ENTRIES"
proof (cases "length (performanceData L) \<ge> MAX_PERFORMANCE_ENTRIES")
  case True
  then obtain first rest where pd: "performanceData L = first # rest"
    by (cases "performanceData L") (auto simp add: MAX_PERFORMANCE_ENTRIES_def)
  have "AList.delete (fst first) (performanceData L) = AList.delete (fst first) rest"
    by (cases first) (simp add: pd)
  then have "length (AList.delete (fst first) (performanceData L)) \<le> length rest"
    by (simp add: AList.delete_eq)
  moreover have "length rest < MAX_PERFORMANCE_ENTRIES"
    using assms pd by simp
  ultimately show ?thesis
    using True pd
    using length_update_le [of "op @ js ''-'' @ numberToString a @ js ''-'' @ r"
        "\<lparr>operation = op, startTime = b, endTime = None, duration = None, data = d\<rparr>"
        "AList.delete (fst first) (performanceData L)"]
    by (simp add: startPerformance_def Let_def del: AList.delete_simps)
next
  case False
  then show ?thesis
    using length_update_le [of "op @ js ''-'' @ numberToString a @ js ''-'' @ r"
        "\<lparr>operation = op, startTime = b, endTime = None, duration = None, data = d\<rparr>"
        "performanceData L"]
    by (simp add: startPerformance_def Let_def)
qed

lemma startPerformance_distinct:
  assumes "distinct (map fst (performanceData L))"
  shows "distinct (map fst (performanceData (snd (startPerformance a r b op d L))))"
proof -
  let ?evicted = "if length (performanceData L) \<ge> MAX_PERFORMANCE_ENTRIES
                  then (case performanceData L of
                          [] \<Rightarrow> performanceData L
                        | first # rest \<Rightarrow> AList.delete (fst first) (performanceData L))
                  else performanceData L"
  have "distinct (map fst (AList.delete k (performanceData L)))" for k
    using assms by (rule distinct_delete)
  then have "distinct (map fst ?evicted)"
    using assms by (cases "performanceData L") (simp_all del: AList.delete_simps)
  then have "distinct (map fst (AList.update k v ?evicted))" for k v
    by (rule distinct_update)
  then show ?thesis
    by (simp add: startPerformance_def Let_def del: AList.delete_simps)
qed

lemma endPerformance_perf:
  "performanceData (fst (endPerformance env t id' lvl L)) =
     (case map_of (performanceData L) id' of
        None \<Rightarrow> performanceData L
      | Some pd \<Rightarrow> AList.delete id' (performanceData L))"
  by (simp add: endPerformance_found endPerformance_missing log'_frame split: option.splits)

lemma length_delete_le': "length (AList.delete k al) \<le> length al"
  by (simp add: AList.delete_eq)

lemma reachable_perf:
  assumes "reachable L"
  shows "length (performanceData L) \<le> MAX_PERFORMANCE_ENTRIES \<and> distinct (map fst (performanceData L))"
  using assms
proof (induction rule: reachable.induct)
  case (constructed env cfg)
  then show ?case by (simp add: constructor_fresh)
next
  case (started L nowId rnd nowStart op pd)
  then show ?case by (simp add: startPerformance_bounded startPerformance_distinct)
next
  case (ended L env endTime' id' lvl)
  then show ?case
    using length_delete_le' [of id' "performanceData L"]
    by (auto simp add: endPerformance_perf distinct_delete split: option.splits)
qed (simp_all add: log'_frame setLevel_def setFilter_def updateFilterSets_def setSampling_def
      setContext_def addTag_def removeTag_def timeRotationTick_frame close_def mutateFilter_def
      split: option.splits)

lemma pathConsistent_frame:
  assumes "pathConsistent L"
    and "filePath L' = filePath L"
    and "output (config L') = output (config L)"
  shows "pathConsistent L'"
  using assms by (simp add: pathConsistent_def split: option.splits)

lemma initFileOutput_consistent:
  assumes "pathConsistent L"
  shows "pathConsistent (fst (initFileOutput env L))"
  using assms
  by (auto simp add: pathConsistent_def initFileOutput_def Let_def split: option.splits)

lemma rotateLog_consistent:
  assumes "pathConsistent L"
  shows "pathConsistent (fst (rotateLog env mf c L))"
proof -
  have "pathConsistent (L\<lparr>fileWriter := False, fileHandle := False\<rparr>)"
    using assms by (rule pathConsistent_frame) simp_all
  then have "pathConsistent (fst (initFileOutput env (L\<lparr>fileWriter := False, fileHandle := False\<rparr>)))"
    by (rule initFileOutput_consistent)
  then show ?thesis
    using assms by (simp add: rotateLog_def Let_def split: option.splits)
qed

lemma checkSizeRotation_consistent:
  assumes "pathConsistent L"
  shows "pathConsistent (fst (checkSizeRotation env L))"
  using assms rotateLog_consistent [OF assms]
  by (simp add: checkSizeRotation_def Let_def split: option.splits)

lemma fileOutput_consistent:
  assumes "pathConsistent L"
  shows "pathConsistent (fst (fileOutput env L e))"
  using assms checkSizeRotation_consistent [OF assms]
  by (simp add: fileOutput_def Let_def split: option.splits)

lemma dispatch_consistent:
  assumes "pathConsistent L"
  shows "pathConsistent (fst (dispatch env L e))"
  using fileOutput_consistent [OF assms]
  by (simp add: dispatch_def Let_def)

lemma shouldSample_consistent:
  assumes "pathConsistent L"
  shows "pathConsistent (snd (shouldSample env L lvl))"
  using assms by (rule pathConsistent_frame) (simp_all add: shouldSample_frame)

lemma writeLog_consistent:
  assumes "pathConsistent L" and "writeLog env L e = Some r"
  shows "pathConsistent (fst r)"
proof -
  have "pathConsistent (fst (dispatch env (snd (shouldSample env L lvl)) x))" for lvl x
    by (intro dispatch_consistent shouldSample_consistent assms(1))
  moreover have "pathConsistent (snd (shouldSample env L lvl))" for lvl
    by (intro shouldSample_consistent assms(1))
  ultimately show ?thesis
    using assms by (auto simp add: writeLog_def Let_def split: if_splits option.splits)
qed

lemma log'_consistent:
  assumes "pathConsistent L"
  shows "pathConsistent (fst (log' env L lvl msg d err))"
  using assms writeLog_consistent [OF assms]
  by (auto simp add: log'_def split: option.splits)

lemma constructor_consistent:
  "pathConsistent (fst (Logger_constructor env cfg))"
proof -
  let ?L1 = "updateFilterSets \<lparr> config = constructConfig env cfg,
                 fileHandle = False, fileWriter = False, filePath = None,
                 performanceData = [], logCount = 0, timeRotationTimerId = None,
                 includeTagsSet = None, excludeTagsSet = None \<rparr>"
  have base: "pathConsistent ?L1"
    by (simp add: pathConsistent_def updateFilterSets_def)
  then have init: "pathConsistent (fst (initFileOutput env ?L1))"
    by (rule initFileOutput_consistent)
  then have start: "pathConsistent (startTimeRotation (fst (initFileOutput env ?L1)))"
    by (rule pathConsistent_frame) (simp_all add: startTimeRotation_def Let_def)
  show ?thesis
    unfolding Logger_constructor_def Let_def
    using base init start by (simp split: option.splits)
qed

lemma endPerformance_consistent:
  assumes "pathConsistent L"
  shows "pathConsistent (fst (endPerformance env t id' lvl L))"
proof (cases "map_of (performanceData L) id'")
  case None
  then show ?thesis
    using log'_consistent [OF assms] by (simp add: endPerformance_missing)
next
  case (Some pd)
  have "pathConsistent (X\<lparr>performanceData := y\<rparr>)" if "pathConsistent X" for X y
    using that by (rule pathConsistent_frame) simp_all
  then show ?thesis
    using log'_consistent [OF assms] Some by (simp add: endPerformance_found)
qed

lemma reachable_pathConsistent:
  assumes "reachable L"
  shows "pathConsistent L"
  using assms
proof (induction rule: reachable.induct)
  case (constructed env cfg)
  show ?case by (rule constructor_consistent)
next
  case (logged L env lvl msg d err)
  then show ?case by (simp add: log'_consistent)
next
  case (ended L env endTime' id' lvl)
  then show ?case by (simp add: endPerformance_consistent)
next
  case (ticked L env)
  then show ?case
    by (simp add: timeRotationTick_def rotateLog_consistent split: option.splits)
next
  case (level_set L lvl)
  from level_set.IH show ?case by (rule pathConsistent_frame) (simp_all add: setLevel_def)
next
  case (filter_set L f)
  from filter_set.IH show ?case
    by (rule pathConsistent_frame) (simp_all add: setFilter_def updateFilterSets_def)
next
  case (filter_mutated L f')
  from filter_mutated.IH show ?case
    by (rule pathConsistent_frame) (simp_all add: mutateFilter_def split: option.splits)
next
  case (sampling_set L s)
  from sampling_set.IH show ?case by (rule pathConsistent_frame) (simp_all add: setSampling_def)
next
  case (context_set L ctx)
  from context_set.IH show ?case by (rule pathConsistent_frame) (simp_all add: setContext_def)
next
  case (tag_added L tag)
  from tag_added.IH show ?case by (rule pathConsistent_frame) (simp_all add: addTag_def)
next
  case (tag_removed L tag)
  from tag_removed.IH show ?case by (rule pathConsistent_frame) (simp_all add: removeTag_def)
next
  case (started L nowId rnd nowStart op pd)
  from started.IH show ?case
    by (rule pathConsistent_frame) (simp_all add: startPerformance_def Let_def)
next
  case (closed L)
  from closed.IH show ?case by (rule pathConsistent_frame) (simp_all add: close_def)
qed


subsection \<open>The sampling counter\<close>

lemma shouldSample_logCount:
  "logCount (snd (shouldSample env L lvl)) =
     (case sampling (config L) of
        None \<Rightarrow> logCount L
      | Some s \<Rightarrow>
          (case levels s of
             None \<Rightarrow> logCount L + 1
           | Some ls \<Rightarrow> if ls = [] \<or> lvl \<in> set ls then logCount L + 1 else logCount L))"
  by (simp add: shouldSample_def split: option.splits)

lemma writeLog_sampling_stage:
  assumes "shouldLog L (e_level e)"
    and "shouldFilterByTags L (mergeEntry L e) = Some True"
  shows "writeLog env L e =
           Some (if fst (shouldSample env L (e_level e))
                 then dispatch env (snd (shouldSample env L (e_level e)))
                        (truncateMessageIfNeeded (snd (shouldSample env L (e_level e)))
                           (mergeEntry L e))
                 else (snd (shouldSample env L (e_level e)), []))"
proof -
  have "e_level (mergeEntry L e) = e_level e"
    by (simp add: mergeEntry_def)
  then show ?thesis
    using assms by (simp add: writeLog_def Let_def)
qed

text \<open>
  C3, as stated, has every call that reaches the sampling stage increment \<open>logCount\<close>
  whatever the sampling configuration. A Logger without a sampling configuration writes
  the entry and leaves \<open>logCount\<close> as it was.
\<close>

theorem C3_counterexample:
  "sampling (config (newLogger emptyConfig)) = None
   \<and> snd (log' exampleEnv (newLogger emptyConfig) Info (js ''x'') None None)
       = [ConsoleLog (js ''2026-01-01T00:00:00.000Z [INFO] x'')]
   \<and> logCount (fst (log' exampleEnv (newLogger emptyConfig) Info (js ''x'') None None))
       = logCount (newLogger emptyConfig)"
  by (simp add: example_defs pipeline_defs)

text \<open>
  C3, amended: a call that passes the level gate and the tag filter returns from
  \<open>writeLog\<close>, and \<open>logCount\<close> has grown by exactly one when a sampling configuration
  is set and its level list is absent, empty or holds the level of the entry; without a
  sampling configuration, or for a level outside a non-empty list, \<open>logCount\<close> is
  unchanged. What the draw decides makes no difference to the count.
\<close>

theorem C3_logCount:
  assumes "shouldLog L (e_level e)"
    and "shouldFilterByTags L (mergeEntry L e) = Some True"
  shows "map_option (\<lambda>r. logCount (fst r)) (writeLog env L e) =
           Some (case sampling (config L) of
                   None \<Rightarrow> logCount L
                 | Some s \<Rightarrow>
                     (case levels s of
                        None \<Rightarrow> logCount L + 1
                      | Some ls \<Rightarrow> if ls = [] \<or> e_level e \<in> set ls then logCount L + 1
                                   else logCount L))"
proof -
  let ?S = "shouldSample env L (e_level e)"
  let ?r = "if fst ?S
            then dispatch env (snd ?S) (truncateMessageIfNeeded (snd ?S) (mergeEntry L e))
            else (snd ?S, [])"
  have w: "writeLog env L e = Some ?r"
    using assms by (rule writeLog_sampling_stage)
  have "logCount (fst ?r) = logCount (snd ?S)"
    by (simp add: dispatch_frame)
  then show ?thesis
    by (simp only: w option.map shouldSample_logCount)
qed

theorem C3_logCount_witness:
  "shouldLog sampledLogger (e_level (entryWith Info (js ''x'')))
   \<and> shouldFilterByTags sampledLogger (mergeEntry sampledLogger (entryWith Info (js ''x''))) = Some True
   \<and> map_option (\<lambda>r. logCount (fst r)) (writeLog exampleEnv sampledLogger (entryWith Info (js ''x'')))
       = Some (logCount sampledLogger + 1)
   \<and> shouldLog sampledLogger (e_level (entryWith Error (js ''y'')))
   \<and> shouldFilterByTags sampledLogger (mergeEntry sampledLogger (entryWith Error (js ''y''))) = Some True
   \<and> map_option (\<lambda>r. logCount (fst r)) (writeLog exampleEnv sampledLogger (entryWith Error (js ''y'')))
       = Some (logCount sampledLogger)"
proof -
  have cfg: "sampling (config sampledLogger) = Some \<lparr> rate = 1, levels = Some [Info] \<rparr>"
    "filter' (config sampledLogger) = None" "level (config sampledLogger) = Info"
    by (simp_all add: sampledLogger_def example_defs)
  have g: "shouldLog sampledLogger (e_level (entryWith Info (js ''x'')))"
    "shouldLog sampledLogger (e_level (entryWith Error (js ''y'')))"
    by (simp_all add: shouldLog_def cfg entryWith_def)
  have f: "shouldFilterByTags sampledLogger (mergeEntry sampledLogger e) = Some True" for e
    by (simp add: shouldFilterByTags_def cfg)
  have l: "e_level (entryWith Info (js ''x'')) = Info" "e_level (entryWith Error (js ''y'')) = Error"
    by (simp_all add: entryWith_def)
  show ?thesis
    using C3_logCount [OF g(1) f, of exampleEnv] C3_logCount [OF g(2) f, of exampleEnv] g f
    by (simp add: cfg l)
qed

subsection \<open>Ending a performance timer\<close>

lemma perfLogData_lookup:
  "map_of (perfLogData pd t) k =
     (if k = js ''endTime'' then Some (JNum t)
      else if k = js ''startTime'' then Some (JNum (startTime pd))
      else if k = js ''duration'' then Some (JNum (t - startTime pd))
      else map_of (case data pd of None \<Rightarrow> [] | Some d \<Rightarrow> d) k)"
  by (simp add: perfLogData_def update_conv')

lemma timedLogger_data:
  "performanceData timedLogger = [(js ''load-1000-0.5'', timedRecord)]"
  by (simp add: timedLogger_def startPerformance_def Let_def newLogger_def constructor_fresh
      MAX_PERFORMANCE_ENTRIES_def numberToString_def digits.simps js_def timedRecord_def)

text \<open>
  C10: the not-found warning of \<open>endPerformance\<close> is issued with \<open>warn\<close>, that is with
  \<open>log\<close> at level warn, so it runs through the level gate, the tag filter and the
  sampler like any other call; a Logger whose minimum level is error or fatal writes
  nothing to any target and is left unchanged.
\<close>

theorem C10_lookup_miss_gated:
  assumes "map_of (performanceData L) id' = None"
  shows "endPerformance env t id' lvl L = warn env L (MSG_perf_missing @ id') None None
       \<and> warn env L (MSG_perf_missing @ id') None None
           = log' env L Warn (MSG_perf_missing @ id') None None
       \<and> (level (config L) = Error \<or> level (config L) = Fatal \<longrightarrow>
            endPerformance env t id' lvl L = (L, []))"
proof -
  have "log' env L Warn m None None = (L, [])"
    if "level (config L) = Error \<or> level (config L) = Fatal" for m
    using that by (auto simp add: log'_def writeLog_def shouldLog_def)
  then show ?thesis
    using assms by (simp add: endPerformance_missing warn_def)
qed

theorem C10_lookup_miss_gated_witness:
  "map_of (performanceData errorLogger) (js ''nope'') = None
   \<and> level (config errorLogger) = Error
   \<and> endPerformance exampleEnv 2000 (js ''nope'') Info errorLogger = (errorLogger, [])"
proof -
  have m: "map_of (performanceData errorLogger) (js ''nope'') = None"
    by (simp add: errorLogger_def newLogger_def constructor_fresh)
  have l: "level (config errorLogger) = Error"
    by (simp add: errorLogger_def example_defs)
  from C10_lookup_miss_gated [OF m, of exampleEnv 2000 Info] l
  have "endPerformance exampleEnv 2000 (js ''nope'') Info errorLogger = (errorLogger, [])"
    by blast
  with m l show ?thesis by blast
qed


subsection \<open>Colour and the NO_COLOR variable\<close>

text \<open>
  \<open>shouldUseColor\<close> itself honours \<open>NO_COLOR\<close> for a configuration without a colour
  setting; but the configuration a Logger passes always has one, because the constructor
  fills \<open>color\<close> in from the format and the terminal alone. So for a Logger the answer
  is its \<open>color\<close> member, and \<open>NO_COLOR\<close> is never looked at.
\<close>

lemma shouldUseColor_NO_COLOR:
  assumes "c_color cfg = None" and "noColorSet env"
  shows "shouldUseColor env cfg False = False"
  using assms by (simp add: shouldUseColor_def)

lemma constructed_color_explicit:
  "c_color (asLoggerConfig (config (fst (Logger_constructor env cfg)))) \<noteq> None"
  by (simp add: asLoggerConfig_def)

lemma shouldUseColor_of_Logger:
  "shouldUseColor env (asLoggerConfig (config L)) False = color (config L)"
  by (simp add: shouldUseColor_def asLoggerConfig_def)

lemma constructed_color:
  assumes "c_color cfg = None"
  shows "color (config (fst (Logger_constructor env cfg)))
           = (c_format cfg = Some ColorFormat \<and> isTerminal env)"
proof -
  have "config (fst (Logger_constructor env cfg)) = constructConfig env cfg"
    by (simp add: Logger_constructor_def Let_def updateFilterSets_def initFileOutput_frame
        startTimeRotation_def split: option.splits)
  then show ?thesis
    using assms by (simp add: constructConfig_def Let_def isTTY_def)
qed

text \<open>
  C2 fails on the code: a Logger built with format "color" and no colour setting, on a
  terminal, with \<open>NO_COLOR\<close> set, writes its console line with the ANSI colour codes.
\<close>

theorem C2_NO_COLOR_ignored:
  "noColorSet exampleEnv
   \<and> c_color (emptyConfig\<lparr>c_format := Some ColorFormat\<rparr>) = None
   \<and> shouldUseColor exampleEnv (asLoggerConfig (config colorLogger)) False = True
   \<and> snd (log' exampleEnv colorLogger Info (js ''x'') None None)
       = [ConsoleLog (js ''2026-01-01T00:00:00.000Z ['' @ ANSI_blue @ js ''INFO'' @ ANSI_reset
                      @ js ''] x'')]"
  by (simp add: colorLogger_def example_defs pipeline_defs noColorSet_def ANSI_blue_def
      ANSI_reset_def ESC_def)

subsection \<open>The bound on the performance map\<close>

lemma update_fresh:
  "k \<notin> fst ` set al \<Longrightarrow> AList.update k v al = al @ [(k, v)]"
  by (induction al) auto

lemma startPerformance_id:
  "fst (startPerformance a r b op d L) = op @ js ''-'' @ numberToString a @ js ''-'' @ r"
  by (simp add: startPerformance_def Let_def)

lemma startPerformance_below:
  assumes "length (performanceData L) < MAX_PERFORMANCE_ENTRIES"
  shows "performanceData (snd (startPerformance a r b op d L)) =
           AList.update (op @ js ''-'' @ numberToString a @ js ''-'' @ r)
             \<lparr>operation = op, startTime = b, endTime = None, duration = None, data = d\<rparr>
             (performanceData L)"
  using assms by (simp add: startPerformance_def Let_def)

lemma startPerformance_full:
  assumes "length (performanceData L) = MAX_PERFORMANCE_ENTRIES"
    and "distinct (map fst (performanceData L))"
  shows "performanceData (snd (startPerformance a r b op d L)) =
           AList.update (op @ js ''-'' @ numberToString a @ js ''-'' @ r)
             \<lparr>operation = op, startTime = b, endTime = None, duration = None, data = d\<rparr>
             (tl (performanceData L))"
proof -
  obtain first rest where pd: "performanceData L = first # rest"
    using assms(1) by (cases "performanceData L") (simp_all add: MAX_PERFORMANCE_ENTRIES_def)
  have "fst first \<notin> fst ` set rest"
    using assms(2) pd by simp
  then have "AList.delete (fst first) rest = rest"
    by (rule delete_id)
  then have "AList.delete (fst first) (first # rest) = rest"
    by (cases first) simp
  then show ?thesis
    using assms(1) pd by (simp add: startPerformance_def Let_def del: AList.delete_simps)
qed

lemma evicted_gone:
  assumes "distinct (map fst al)" and "al \<noteq> []" and "fst (hd al) \<noteq> k"
  shows "map_of (AList.update k v (tl al)) (fst (hd al)) = None"
proof -
  obtain first rest where al: "al = first # rest"
    using assms(2) by (cases al) simp_all
  have "fst first \<notin> fst ` set rest"
    using assms(1) al by simp
  then have "map_of rest (fst first) = None"
    by (simp add: map_of_eq_None_iff)
  then show ?thesis
    using assms(3) al by (simp add: update_conv')
qed

text \<open>
  C6: in every state a Logger can be in, the performance map holds at most 1000 records,
  also after \<open>startPerformance\<close>. \<open>startPerformance\<close> always returns the id
  \<open>operation-now-random\<close> and leaves the new record stored under it. At capacity the
  map afterwards is the old one without its first (oldest) entry, with the new record set;
  the id of the evicted entry, unless the new id is the same, is then unknown.
\<close>

theorem C6_performance_map_bounded:
  assumes "reachable L"
  shows "MAX_PERFORMANCE_ENTRIES = 1000
       \<and> length (performanceData L) \<le> MAX_PERFORMANCE_ENTRIES
       \<and> length (performanceData (snd (startPerformance a r b op d L))) \<le> MAX_PERFORMANCE_ENTRIES
       \<and> fst (startPerformance a r b op d L) = op @ js ''-'' @ numberToString a @ js ''-'' @ r
       \<and> map_of (performanceData (snd (startPerformance a r b op d L)))
            (fst (startPerformance a r b op d L))
          = Some \<lparr>operation = op, startTime = b, endTime = None, duration = None, data = d\<rparr>
       \<and> (length (performanceData L) = MAX_PERFORMANCE_ENTRIES \<longrightarrow>
            performanceData (snd (startPerformance a r b op d L)) =
              AList.update (fst (startPerformance a r b op d L))
                \<lparr>operation = op, startTime = b, endTime = None, duration = None, data = d\<rparr>
                (tl (performanceData L)))
       \<and> (length (performanceData L) = MAX_PERFORMANCE_ENTRIES
            \<and> fst (hd (performanceData L)) \<noteq> fst (startPerformance a r b op d L) \<longrightarrow>
            map_of (performanceData (snd (startPerformance a r b op d L)))
              (fst (hd (performanceData L))) = None)"
proof -
  let ?id = "fst (startPerformance a r b op d L)"
  let ?rec = "\<lparr>operation = op, startTime = b, endTime = None, duration = None, data = d\<rparr>"
  have inv: "length (performanceData L) \<le> MAX_PERFORMANCE_ENTRIES"
    "distinct (map fst (performanceData L))"
    using reachable_perf [OF assms] by simp_all
  have after: "length (performanceData (snd (startPerformance a r b op d L))) \<le> MAX_PERFORMANCE_ENTRIES"
    using reachable_perf [OF reachable.started [OF assms]] by simp
  have stored: "map_of (performanceData (snd (startPerformance a r b op d L))) ?id = Some ?rec"
    by (simp add: startPerformance_def Let_def update_conv')
  have full: "performanceData (snd (startPerformance a r b op d L)) =
                AList.update ?id ?rec (tl (performanceData L))"
    if "length (performanceData L) = MAX_PERFORMANCE_ENTRIES"
    using startPerformance_full [OF that inv(2)] by (simp add: startPerformance_id)
  have gone: "map_of (performanceData (snd (startPerformance a r b op d L)))
                (fst (hd (performanceData L))) = None"
    if "length (performanceData L) = MAX_PERFORMANCE_ENTRIES"
      and "fst (hd (performanceData L)) \<noteq> ?id"
  proof -
    have "performanceData L \<noteq> []"
      using that(1) by (auto simp add: MAX_PERFORMANCE_ENTRIES_def)
    then show ?thesis
      using evicted_gone [OF inv(2) _ that(2)] full [OF that(1)] by simp
  qed
  show ?thesis
    using inv(1) after stored full gone
    by (simp add: MAX_PERFORMANCE_ENTRIES_def startPerformance_id)
qed

lemma fillTimers_reachable: "reachable (fillTimers n)"
proof (induction n)
  case 0
  show ?case by (simp add: newLogger_def reachable.constructed)
next
  case (Suc n)
  then show ?case by (simp add: reachable.started)
qed

lemma fillId_inj: "fillId i = fillId j \<Longrightarrow> i = j"
proof -
  assume "fillId i = fillId j"
  then have "length (fillId i) = length (fillId j)" by simp
  then show "i = j" by (simp add: fillId_def)
qed

lemma fillTimers_keys:
  "n \<le> MAX_PERFORMANCE_ENTRIES \<Longrightarrow> map fst (performanceData (fillTimers n)) = map fillId [0..<n]"
proof (induction n)
  case 0
  show ?case by (simp add: newLogger_def constructor_fresh)
next
  case (Suc n)
  then have keys: "map fst (performanceData (fillTimers n)) = map fillId [0..<n]"
    by simp
  then have "length (map fst (performanceData (fillTimers n))) = n"
    by simp
  then have len: "length (performanceData (fillTimers n)) < MAX_PERFORMANCE_ENTRIES"
    using Suc.prems by simp
  have zero: "numberToString 0 = js ''0''"
    by (simp add: numberToString_def digits.simps js_def)
  have id: "replicate n 0x61 @ js ''-'' @ numberToString 0 @ js ''-'' = fillId n"
    by (simp add: fillId_def zero js_def)
  have "fillId n \<notin> set (map fillId [0..<n])"
    using fillId_inj by fastforce
  then have fresh: "fillId n \<notin> fst ` set (performanceData (fillTimers n))"
    using keys by (metis set_map)
  show ?case
    using startPerformance_below [OF len, of 0 "[]" 0 "replicate n 0x61" None]
    by (simp add: id update_fresh [OF fresh] keys)
qed

theorem C6_performance_map_bounded_witness:
  "reachable (fillTimers 1000)
   \<and> length (performanceData (fillTimers 1000)) = MAX_PERFORMANCE_ENTRIES
   \<and> fst (hd (performanceData (fillTimers 1000))) = js ''-0-''
   \<and> fst (startPerformance 5 (js ''0.1'') 5 (js ''job'') None (fillTimers 1000)) = js ''job-5-0.1''
   \<and> js ''-0-'' \<noteq> js ''job-5-0.1''
   \<and> length (performanceData (snd (startPerformance 5 (js ''0.1'') 5 (js ''job'') None
         (fillTimers 1000)))) \<le> MAX_PERFORMANCE_ENTRIES
   \<and> performanceData (snd (startPerformance 5 (js ''0.1'') 5 (js ''job'') None (fillTimers 1000)))
       = AList.update (js ''job-5-0.1'') jobRecord (tl (performanceData (fillTimers 1000)))
   \<and> map_of (performanceData (snd (startPerformance 5 (js ''0.1'') 5 (js ''job'') None
         (fillTimers 1000)))) (js ''job-5-0.1'') = Some jobRecord
   \<and> map_of (performanceData (snd (startPerformance 5 (js ''0.1'') 5 (js ''job'') None
         (fillTimers 1000)))) (js ''-0-'') = None"
proof -
  let ?L = "fillTimers 1000"
  let ?S = "startPerformance 5 (js ''0.1'') 5 (js ''job'') None ?L"
  have r: "reachable ?L"
    by (rule fillTimers_reachable)
  have keys: "map fst (performanceData ?L) = map fillId [0..<1000]"
    by (rule fillTimers_keys) (simp add: MAX_PERFORMANCE_ENTRIES_def)
  have "length (map fst (performanceData ?L)) = 1000"
    by (simp add: keys)
  then have len: "length (performanceData ?L) = MAX_PERFORMANCE_ENTRIES"
    by (simp add: MAX_PERFORMANCE_ENTRIES_def)
  then have ne: "performanceData ?L \<noteq> []"
    by (auto simp add: MAX_PERFORMANCE_ENTRIES_def)
  then have "fst (hd (performanceData ?L)) = hd (map fst (performanceData ?L))"
    by (simp add: hd_map)
  also have "\<dots> = fillId 0"
    by (simp only: keys) (simp add: hd_map)
  finally have first: "fst (hd (performanceData ?L)) = js ''-0-''"
    by (simp add: fillId_def)
  have rec: "\<lparr>operation = js ''job'', startTime = 5, endTime = None, duration = None, data = None\<rparr>
      = jobRecord"
    by (simp add: jobRecord_def)
  have differ: "js ''-0-'' \<noteq> js ''job-5-0.1''"
    by (simp add: js_def)
  have five: "js ''job'' @ js ''-'' @ numberToString 5 @ js ''-'' @ js ''0.1'' = js ''job-5-0.1''"
    by (simp add: numberToString_def digits.simps js_def)
  note c6 = C6_performance_map_bounded [OF r, of 5 "js ''0.1''" 5 "js ''job''" None]
  from c6 have "fst ?S = js ''job'' @ js ''-'' @ numberToString 5 @ js ''-'' @ js ''0.1''"
    by blast
  then have ident: "fst ?S = js ''job-5-0.1''"
    by (simp only: five)
  from c6 have bound: "length (performanceData (snd ?S)) \<le> MAX_PERFORMANCE_ENTRIES"
    by blast
  from c6 len have "performanceData (snd ?S)
      = AList.update (fst ?S)
          \<lparr>operation = js ''job'', startTime = 5, endTime = None, duration = None, data = None\<rparr>
          (tl (performanceData ?L))"
    by blast
  then have full: "performanceData (snd ?S)
      = AList.update (js ''job-5-0.1'') jobRecord (tl (performanceData ?L))"
    by (simp only: ident rec)
  from c6 have "map_of (performanceData (snd ?S)) (fst ?S)
      = Some \<lparr>operation = js ''job'', startTime = 5, endTime = None, duration = None, data = None\<rparr>"
    by blast
  then have stored: "map_of (performanceData (snd ?S)) (js ''job-5-0.1'') = Some jobRecord"
    by (simp only: ident rec)
  have "fst (hd (performanceData ?L)) \<noteq> fst ?S"
    using differ by (simp only: first ident) simp
  with c6 len have "map_of (performanceData (snd ?S)) (fst (hd (performanceData ?L))) = None"
    by blast
  then have gone: "map_of (performanceData (snd ?S)) (js ''-0-'') = None"
    by (simp only: first)
  show ?thesis
    using r len first ident differ bound full stored gone by blast
qed


subsection \<open>Rotation\<close>

lemma shiftBackups_map:
  "shiftBackups p n =
     map (\<lambda>i. Rename (p @ js ''.'' @ numberToString (int i))
                       (p @ js ''.'' @ numberToString (int i + 1)))
         (rev [1..<Suc n])"
  by (induction n) simp_all

lemma initFileOutput_reopen:
  assumes "pathConsistent L" and "filePath L = Some p"
  shows "initFileOutput env L =
           (let dir = substring p 0 (lastIndexOf p 0x2F);
                mk = (if dir \<noteq> [] then [Mkdir dir] else []);
                failed = ConsoleError (MSG_cannot_open @ p @ js '':'')
            in if dir \<noteq> [] \<and> mkdir_throws env then (L, mk @ [failed])
               else if open_throws env then (L, mk @ [Open p, failed])
               else (L\<lparr>fileHandle := True, fileWriter := True, filePath := Some p\<rparr>, mk @ [Open p]))"
  using assms
  by (auto simp add: pathConsistent_def initFileOutput_def Let_def split: option.splits)

text \<open>
  C5, as stated, has \<open>rotateLog\<close> reopen the file whatever happens, so that the Logger
  stays writable. A Logger whose first \<open>open\<close> threw has no \<open>filePath\<close>; its rotation
  timer runs, and \<open>rotateLog\<close> returns at once: nothing is closed, renamed or opened,
  also when \<open>open\<close> would now succeed.
\<close>

theorem C5_counterexample:
  "filePath unopenedLogger = None \<and> fileWriter unopenedLogger = False
   \<and> file (output (config unopenedLogger)) = Some exampleFile
   \<and> timeRotationTimerId unopenedLogger = Some 86400000
   \<and> open_throws exampleEnv = False
   \<and> rotateLog exampleEnv 3 False unopenedLogger = (unopenedLogger, [])
   \<and> timeRotationTick exampleEnv unopenedLogger = (unopenedLogger, [])"
  by (simp add: unopenedLogger_def fileConfig_def exampleFile_def example_defs initFileOutput_def
      isAllowedLogPath_def substring_def lastIndexOf_def startTimeRotation_def js_def
      rotateLog_def timeRotationTick_def Let_def)

text \<open>
  C5, amended: in every state a Logger can be in, \<open>rotateLog\<close> without a \<open>filePath\<close>
  does nothing. With a \<open>filePath\<close> \<open>p\<close> it closes the writer and the handle when
  present, before any rename; renames \<open>p.i\<close> to \<open>p.(i+1)\<close> for \<open>i\<close> from
  \<open>maxFiles - 1\<close> down to 1, whatever these renames answer; renames \<open>p\<close> to \<open>p.1\<close>;
  reports a failure of that rename, or prints the compression warning when asked for; and
  ends with \<open>initFileOutput\<close> in either case, which makes the directory, opens \<open>p\<close>
  and, unless \<open>mkdir\<close> or \<open>open\<close> throws, leaves the Logger with a writer and a handle.
\<close>

theorem C5_rotateLog:
  assumes "reachable L"
  shows "(filePath L = None \<longrightarrow> rotateLog env mf c L = (L, []))
       \<and> (filePath L = Some p \<longrightarrow>
            rotateLog env mf c L =
              (fst (initFileOutput env (L\<lparr>fileWriter := False, fileHandle := False\<rparr>)),
               (if fileWriter L then [WriterClose] else [])
               @ (if fileHandle L then [HandleClose] else [])
               @ map (\<lambda>i. Rename (p @ js ''.'' @ numberToString (int i))
                                 (p @ js ''.'' @ numberToString (int i + 1)))
                     (rev [1..<nat mf])
               @ [Rename p (p @ js ''.1'')]
               @ (if rename_throws env p (p @ js ''.1'') then [ConsoleError MSG_rotate_failed]
                  else if c then [ConsoleWarn MSG_compress] else [])
               @ snd (initFileOutput env (L\<lparr>fileWriter := False, fileHandle := False\<rparr>)))
            \<and> initFileOutput env (L\<lparr>fileWriter := False, fileHandle := False\<rparr>) =
                (let dir = substring p 0 (lastIndexOf p 0x2F);
                     mk = (if dir \<noteq> [] then [Mkdir dir] else []);
                     failed = ConsoleError (MSG_cannot_open @ p @ js '':'')
                 in if dir \<noteq> [] \<and> mkdir_throws env
                    then (L\<lparr>fileWriter := False, fileHandle := False\<rparr>, mk @ [failed])
                    else if open_throws env
                    then (L\<lparr>fileWriter := False, fileHandle := False\<rparr>, mk @ [Open p, failed])
                    else (L\<lparr>fileWriter := True, fileHandle := True\<rparr>, mk @ [Open p])))"
proof -
  have none: "filePath L = None \<longrightarrow> rotateLog env mf c L = (L, [])"
    by (simp add: rotateLog_def)
  have idx: "Suc (nat (mf - 1)) = nat mf" if "1 \<le> mf"
    using that by simp
  have shifts: "shiftBackups p (nat (mf - 1)) =
      map (\<lambda>i. Rename (p @ js ''.'' @ numberToString (int i))
                        (p @ js ''.'' @ numberToString (int i + 1)))
          (rev [1..<nat mf])"
  proof (cases "1 \<le> mf")
    case True
    then show ?thesis by (simp only: shiftBackups_map idx)
  next
    case False
    then show ?thesis by simp
  qed
  have rot: "filePath L = Some p \<longrightarrow>
            rotateLog env mf c L =
              (fst (initFileOutput env (L\<lparr>fileWriter := False, fileHandle := False\<rparr>)),
               (if fileWriter L then [WriterClose] else [])
               @ (if fileHandle L then [HandleClose] else [])
               @ map (\<lambda>i. Rename (p @ js ''.'' @ numberToString (int i))
                                 (p @ js ''.'' @ numberToString (int i + 1)))
                     (rev [1..<nat mf])
               @ [Rename p (p @ js ''.1'')]
               @ (if rename_throws env p (p @ js ''.1'') then [ConsoleError MSG_rotate_failed]
                  else if c then [ConsoleWarn MSG_compress] else [])
               @ snd (initFileOutput env (L\<lparr>fileWriter := False, fileHandle := False\<rparr>)))"
    by (simp add: rotateLog_def Let_def shifts)
  have reopen: "initFileOutput env (L\<lparr>fileWriter := False, fileHandle := False\<rparr>) =
                (let dir = substring p 0 (lastIndexOf p 0x2F);
                     mk = (if dir \<noteq> [] then [Mkdir dir] else []);
                     failed = ConsoleError (MSG_cannot_open @ p @ js '':'')
                 in if dir \<noteq> [] \<and> mkdir_throws env
                    then (L\<lparr>fileWriter := False, fileHandle := False\<rparr>, mk @ [failed])
                    else if open_throws env
                    then (L\<lparr>fileWriter := False, fileHandle := False\<rparr>, mk @ [Open p, failed])
                    else (L\<lparr>fileWriter := True, fileHandle := True\<rparr>, mk @ [Open p]))"
    if fp: "filePath L = Some p"
  proof -
    have "pathConsistent (L\<lparr>fileWriter := False, fileHandle := False\<rparr>)"
      using reachable_pathConsistent [OF assms] by (rule pathConsistent_frame) simp_all
    moreover have "filePath (L\<lparr>fileWriter := False, fileHandle := False\<rparr>) = Some p"
      using fp by simp
    moreover have "L\<lparr>fileWriter := False, fileHandle := False\<rparr>
                     \<lparr>fileHandle := True, fileWriter := True, filePath := Some p\<rparr>
                   = L\<lparr>fileWriter := True, fileHandle := True\<rparr>"
      using fp by (cases L) simp
    ultimately show ?thesis
      by (simp only: initFileOutput_reopen)
  qed
  show ?thesis
    using none rot reopen by blast
qed

lemma fileLogger_state:
  "filePath fileLogger = Some (js ''logs/app.log'')" "fileWriter fileLogger" "fileHandle fileLogger"
  by (simp_all add: fileLogger_def fileConfig_def exampleFile_def example_defs initFileOutput_def
      isAllowedLogPath_def substring_def lastIndexOf_def startTimeRotation_def js_def Let_def)

lemma example_dir:
  "substring (js ''logs/app.log'') 0 (lastIndexOf (js ''logs/app.log'') 0x2F) = js ''logs''"
  by (simp add: substring_def lastIndexOf_def js_def)

lemma example_backups:
  "map (\<lambda>i. Rename (js ''logs/app.log'' @ js ''.'' @ numberToString (int i))
                    (js ''logs/app.log'' @ js ''.'' @ numberToString (int i + 1)))
       (rev [1..<nat 3])
   = [Rename (js ''logs/app.log.2'') (js ''logs/app.log.3''),
      Rename (js ''logs/app.log.1'') (js ''logs/app.log.2'')]"
proof -
  have "rev [1..<nat 3] = [2, 1]"
    by (simp add: numeral_3_eq_3)
  then show ?thesis
    by (simp add: numberToString_def digits.simps js_def)
qed

theorem C5_rotateLog_witness:
  "reachable fileLogger \<and> filePath fileLogger = Some (js ''logs/app.log'')
   \<and> snd (rotateLog exampleEnv 3 False fileLogger)
       = [WriterClose, HandleClose,
          Rename (js ''logs/app.log.2'') (js ''logs/app.log.3''),
          Rename (js ''logs/app.log.1'') (js ''logs/app.log.2''),
          Rename (js ''logs/app.log'') (js ''logs/app.log.1''),
          Mkdir (js ''logs''), Open (js ''logs/app.log'')]
   \<and> fileWriter (fst (rotateLog exampleEnv 3 False fileLogger))
   \<and> snd (rotateLog renameFailsEnv 3 True fileLogger)
       = [WriterClose, HandleClose,
          Rename (js ''logs/app.log.2'') (js ''logs/app.log.3''),
          Rename (js ''logs/app.log.1'') (js ''logs/app.log.2''),
          Rename (js ''logs/app.log'') (js ''logs/app.log.1''),
          ConsoleError MSG_rotate_failed,
          Mkdir (js ''logs''), Open (js ''logs/app.log'')]
   \<and> fileWriter (fst (rotateLog renameFailsEnv 3 True fileLogger))
   \<and> reachable unopenedLogger \<and> filePath unopenedLogger = None
   \<and> rotateLog exampleEnv 3 False unopenedLogger = (unopenedLogger, [])"
proof -
  let ?p = "js ''logs/app.log''"
  let ?L1 = "fileLogger\<lparr>fileWriter := False, fileHandle := False\<rparr>"
  let ?L2 = "fileLogger\<lparr>fileWriter := True, fileHandle := True\<rparr>"
  let ?shifts = "[Rename (js ''logs/app.log.2'') (js ''logs/app.log.3''),
                  Rename (js ''logs/app.log.1'') (js ''logs/app.log.2'')]"
  have r: "reachable fileLogger"
    unfolding fileLogger_def newLogger_def by (rule reachable.constructed)
  have u: "reachable unopenedLogger"
    unfolding unopenedLogger_def by (rule reachable.constructed)
  have un: "filePath unopenedLogger = None"
    by (simp add: unopenedLogger_def fileConfig_def exampleFile_def example_defs
        initFileOutput_def isAllowedLogPath_def substring_def lastIndexOf_def
        startTimeRotation_def js_def Let_def)
  have one: "?p @ js ''.1'' = js ''logs/app.log.1''"
    by (simp add: js_def)
  have dir: "js ''logs'' \<noteq> []"
    by (simp add: js_def)
  have envs: "mkdir_throws exampleEnv = False" "open_throws exampleEnv = False"
    "rename_throws exampleEnv a b = False"
    "mkdir_throws renameFailsEnv = False" "open_throws renameFailsEnv = False"
    "rename_throws renameFailsEnv a b = True" for a b
    by (simp_all add: exampleEnv_def renameFailsEnv_def)
  have state: "fileWriter fileLogger = True" "fileHandle fileLogger = True"
    using fileLogger_state by simp_all
  note fp = fileLogger_state(1)
  from C5_rotateLog [OF r, of exampleEnv 3 False ?p] fp
  have ok_rot: "rotateLog exampleEnv 3 False fileLogger =
          (fst (initFileOutput exampleEnv ?L1),
           (if fileWriter fileLogger then [WriterClose] else [])
           @ (if fileHandle fileLogger then [HandleClose] else [])
           @ map (\<lambda>i. Rename (?p @ js ''.'' @ numberToString (int i))
                             (?p @ js ''.'' @ numberToString (int i + 1)))
                 (rev [1..<nat 3])
           @ [Rename ?p (?p @ js ''.1'')]
           @ (if rename_throws exampleEnv ?p (?p @ js ''.1'') then [ConsoleError MSG_rotate_failed]
              else if False then [ConsoleWarn MSG_compress] else [])
           @ snd (initFileOutput exampleEnv ?L1))"
    and ok_init: "initFileOutput exampleEnv ?L1 =
            (let dir = substring ?p 0 (lastIndexOf ?p 0x2F);
                 mk = (if dir \<noteq> [] then [Mkdir dir] else []);
                 failed = ConsoleError (MSG_cannot_open @ ?p @ js '':'')
             in if dir \<noteq> [] \<and> mkdir_throws exampleEnv then (?L1, mk @ [failed])
                else if open_throws exampleEnv then (?L1, mk @ [Open ?p, failed])
                else (?L2, mk @ [Open ?p]))"
    by blast+
  from C5_rotateLog [OF r, of renameFailsEnv 3 True ?p] fp
  have bad_rot: "rotateLog renameFailsEnv 3 True fileLogger =
          (fst (initFileOutput renameFailsEnv ?L1),
           (if fileWriter fileLogger then [WriterClose] else [])
           @ (if fileHandle fileLogger then [HandleClose] else [])
           @ map (\<lambda>i. Rename (?p @ js ''.'' @ numberToString (int i))
                             (?p @ js ''.'' @ numberToString (int i + 1)))
                 (rev [1..<nat 3])
           @ [Rename ?p (?p @ js ''.1'')]
           @ (if rename_throws renameFailsEnv ?p (?p @ js ''.1'') then [ConsoleError MSG_rotate_failed]
              else if True then [ConsoleWarn MSG_compress] else [])
           @ snd (initFileOutput renameFailsEnv ?L1))"
    and bad_init: "initFileOutput renameFailsEnv ?L1 =
            (let dir = substring ?p 0 (lastIndexOf ?p 0x2F);
                 mk = (if dir \<noteq> [] then [Mkdir dir] else []);
                 failed = ConsoleError (MSG_cannot_open @ ?p @ js '':'')
             in if dir \<noteq> [] \<and> mkdir_throws renameFailsEnv then (?L1, mk @ [failed])
                else if open_throws renameFailsEnv then (?L1, mk @ [Open ?p, failed])
                else (?L2, mk @ [Open ?p]))"
    by blast+
  from C5_rotateLog [OF u, of exampleEnv 3 False ?p] un
  have gap_rot: "rotateLog exampleEnv 3 False unopenedLogger = (unopenedLogger, [])"
    by blast
  have ok_init': "initFileOutput exampleEnv ?L1 = (?L2, [Mkdir (js ''logs''), Open ?p])"
    by (simp only: ok_init example_dir Let_def envs dir) simp
  have bad_init': "initFileOutput renameFailsEnv ?L1 = (?L2, [Mkdir (js ''logs''), Open ?p])"
    by (simp only: bad_init example_dir Let_def envs dir) simp
  have ok_rot': "rotateLog exampleEnv 3 False fileLogger =
      (?L2, [WriterClose, HandleClose] @ ?shifts @ [Rename ?p (js ''logs/app.log.1'')]
            @ [Mkdir (js ''logs''), Open ?p])"
    by (simp only: ok_rot ok_init' example_backups one envs state) simp
  have bad_rot': "rotateLog renameFailsEnv 3 True fileLogger =
      (?L2, [WriterClose, HandleClose] @ ?shifts @ [Rename ?p (js ''logs/app.log.1'')]
            @ [ConsoleError MSG_rotate_failed] @ [Mkdir (js ''logs''), Open ?p])"
    by (simp only: bad_rot bad_init' example_backups one envs state) simp
  show ?thesis
    using r u un fp gap_rot by (simp add: ok_rot' bad_rot')
qed


subsection \<open>What an admitted call writes\<close>

lemma truncate_config:
  "config L' = config L \<Longrightarrow> truncateMessageIfNeeded L' e = truncateMessageIfNeeded L e"
  by (simp add: truncateMessageIfNeeded_def)

lemma fileOutput_write:
  assumes "file (output (config L)) \<noteq> None" and "fileWriter L"
  shows "FileWrite (fileLine env L e) \<in> set (snd (fileOutput env L e))"
  using assms by (auto simp add: fileOutput_def Let_def)

lemma consoleOutput_write:
  assumes "console (output (config L)) = Some True"
  shows "ConsoleLog (consoleLine env L e) \<in> set (consoleOutput env L e)"
  using assms by (simp add: consoleOutput_def)

lemma customOutput_call:
  assumes "custom (output (config L)) \<noteq> None" and "config L' = config L"
  shows "CustomSink (consoleLine env L e) \<in> set (customOutput env L' e)"
  using assms by (auto simp add: customOutput_def Let_def)

lemma dispatch_written: "writtenToTargets env L e (snd (dispatch env L e))"
proof -
  have "config (fst (fileOutput env L e)) = config L"
    by (simp add: fileOutput_frame)
  then show ?thesis
    using fileOutput_write [of L env e] consoleOutput_write [of L env e]
      customOutput_call [of L "fst (fileOutput env L e)" env e]
    by (simp add: writtenToTargets_def dispatch_def Let_def)
qed

lemma writtenToTargets_cong:
  assumes "writtenToTargets env L' e effects"
    and "config L' = config L" and "fileWriter L' = fileWriter L"
  shows "writtenToTargets env L e effects"
  using assms by (simp add: writtenToTargets_def cong: if_cong)

lemma log'_callEntry:
  "log' env L lvl msg d err =
     (case writeLog env L (callEntry env lvl msg d err) of
        None \<Rightarrow> (L, [ConsoleError (js ''writeLog error'')])
      | Some r \<Rightarrow> r)"
  by (simp add: log'_def callEntry_def)

lemma log'_admitted:
  assumes "admitted env L (callEntry env lvl msg d err)"
  shows "writtenToTargets env L
           (truncateMessageIfNeeded L (mergeEntry L (callEntry env lvl msg d err)))
           (snd (log' env L lvl msg d err))"
proof -
  let ?e = "callEntry env lvl msg d err"
  let ?S = "snd (shouldSample env L (e_level ?e))"
  have w: "writeLog env L ?e = Some (dispatch env ?S (truncateMessageIfNeeded ?S (mergeEntry L ?e)))"
    using assms writeLog_sampling_stage [of L ?e env] by (simp add: admitted_def)
  have t: "truncateMessageIfNeeded ?S (mergeEntry L ?e) = truncateMessageIfNeeded L (mergeEntry L ?e)"
    by (rule truncate_config) (simp add: shouldSample_frame)
  have "writtenToTargets env ?S (truncateMessageIfNeeded L (mergeEntry L ?e))
          (snd (dispatch env ?S (truncateMessageIfNeeded L (mergeEntry L ?e))))"
    by (rule dispatch_written)
  then have "writtenToTargets env L (truncateMessageIfNeeded L (mergeEntry L ?e))
          (snd (dispatch env ?S (truncateMessageIfNeeded L (mergeEntry L ?e))))"
    by (rule writtenToTargets_cong) (simp_all add: shouldSample_frame)
  then show ?thesis
    by (simp add: log'_callEntry w t)
qed

lemma log'_gated:
  assumes "\<not> shouldLog L lvl"
  shows "log' env L lvl msg d err = (L, [])"
  using assms by (simp add: log'_def writeLog_def)

lemma truncated_message:
  assumes "maxMessageLength (config L) = Some M"
  shows "truncateMessageIfNeeded L e =
           e\<lparr>e_message := (if 0 < M \<and> M < int (length (e_message e))
                             then take (nat M) (e_message e) @ [0x2026] else e_message e)\<rparr>"
  using assms by (simp add: truncateMessageIfNeeded_def ELLIPSIS_def)

subsection \<open>Truncation\<close>

text \<open>
  C9: with a limit \<open>M\<close>, \<open>0 < M < N\<close>, a message of \<open>N\<close> code units becomes its
  first \<open>M\<close> units and the one-unit marker \<open>U+2026\<close>; a message of at most \<open>M\<close>
  units is unchanged; the limit \<open>0\<close> never truncates; a Logger built without a limit
  has the limit 32768. And this is the message that is emitted: for a call of \<open>log\<close>
  that is admitted, each active target (console, file, custom sink) is written the line
  formatted from the merged entry whose message is the truncated one, or the message
  itself when it is within the limit.
\<close>

theorem C9_truncation:
  "(maxMessageLength (config L) = Some M \<and> 0 < M \<and> M < int (length (e_message e)) \<longrightarrow>
      e_message (truncateMessageIfNeeded L e) = take (nat M) (e_message e) @ [0x2026]
      \<and> length (e_message (truncateMessageIfNeeded L e)) = nat M + 1)
   \<and> (maxMessageLength (config L) = Some M \<and> int (length (e_message e)) \<le> M \<longrightarrow>
      truncateMessageIfNeeded L e = e)
   \<and> (maxMessageLength (config L) = Some 0 \<longrightarrow> truncateMessageIfNeeded L e = e)
   \<and> (c_maxMessageLength cfg = None \<longrightarrow>
      maxMessageLength (config (fst (Logger_constructor env cfg))) = Some 32768)
   \<and> (maxMessageLength (config L) = Some M \<and> admitted env L (callEntry env lvl msg d err) \<longrightarrow>
      writtenToTargets env L
        ((mergeEntry L (callEntry env lvl msg d err))
           \<lparr>e_message := (if 0 < M \<and> M < int (length msg)
                            then take (nat M) msg @ [0x2026] else msg)\<rparr>)
        (snd (log' env L lvl msg d err)))"
proof -
  have "config (fst (Logger_constructor env cfg)) = constructConfig env cfg"
    by (simp add: Logger_constructor_def Let_def updateFilterSets_def initFileOutput_def
        startTimeRotation_def split: option.splits)
  then have dflt: "c_maxMessageLength cfg = None \<longrightarrow>
      maxMessageLength (config (fst (Logger_constructor env cfg))) = Some 32768"
    by (simp add: constructConfig_def Let_def DEFAULT_MAX_MESSAGE_LENGTH_def)
  have msg: "e_message (mergeEntry L (callEntry env lvl msg d err)) = msg"
    by (simp add: mergeEntry_def callEntry_def)
  have sent: "writtenToTargets env L
        ((mergeEntry L (callEntry env lvl msg d err))
           \<lparr>e_message := (if 0 < M \<and> M < int (length msg)
                            then take (nat M) msg @ [0x2026] else msg)\<rparr>)
        (snd (log' env L lvl msg d err))"
    if "maxMessageLength (config L) = Some M" and "admitted env L (callEntry env lvl msg d err)"
  proof -
    have "truncateMessageIfNeeded L (mergeEntry L (callEntry env lvl msg d err)) =
            (mergeEntry L (callEntry env lvl msg d err))
              \<lparr>e_message := (if 0 < M \<and> M < int (length msg)
                               then take (nat M) msg @ [0x2026] else msg)\<rparr>"
      by (simp add: truncated_message [OF that(1)] msg cong: if_cong)
    then show ?thesis
      using log'_admitted [OF that(2)] by (simp only:)
  qed
  show ?thesis
    using dflt sent by (auto simp add: truncateMessageIfNeeded_def ELLIPSIS_def)
qed

lemmas logger_eval = example_defs fileConfig_def exampleFile_def initFileOutput_def
  isAllowedLogPath_def substring_def lastIndexOf_def startTimeRotation_def js_def Let_def

lemmas line_eval = mergeEntry_def callEntry_def formatText_def shouldUseColor_def
  asLoggerConfig_def spread_def DEFAULT_MAX_MESSAGE_LENGTH_def

theorem C9_truncation_witness:
  "maxMessageLength (config shortLogger) = Some 3 \<and> (0::int) < 3
   \<and> 3 < int (length (e_message (entryWith Info (js ''hello''))))
   \<and> e_message (truncateMessageIfNeeded shortLogger (entryWith Info (js ''hello'')))
       = js ''hel'' @ [0x2026]
   \<and> int (length (e_message (entryWith Info (js ''hi'')))) \<le> 3
   \<and> truncateMessageIfNeeded shortLogger (entryWith Info (js ''hi'')) = entryWith Info (js ''hi'')
   \<and> maxMessageLength (config unlimitedLogger) = Some 0
   \<and> truncateMessageIfNeeded unlimitedLogger (entryWith Info (js ''hello''))
       = entryWith Info (js ''hello'')
   \<and> c_maxMessageLength emptyConfig = None
   \<and> maxMessageLength (config (fst (Logger_constructor exampleEnv emptyConfig))) = Some 32768
   \<and> maxMessageLength (config shortTargetsLogger) = Some 3
   \<and> admitted exampleEnv shortTargetsLogger (callEntry exampleEnv Info (js ''hello'') None None)
   \<and> ConsoleLog (js ''2026-01-01T00:00:00.000Z [INFO] hel'' @ [0x2026])
       \<in> set (snd (log' exampleEnv shortTargetsLogger Info (js ''hello'') None None))
   \<and> FileWrite (js ''2026-01-01T00:00:00.000Z [INFO] hel'' @ [0x2026, 0x0A])
       \<in> set (snd (log' exampleEnv shortTargetsLogger Info (js ''hello'') None None))
   \<and> CustomSink (js ''2026-01-01T00:00:00.000Z [INFO] hel'' @ [0x2026])
       \<in> set (snd (log' exampleEnv shortTargetsLogger Info (js ''hello'') None None))
   \<and> admitted exampleEnv shortTargetsLogger (callEntry exampleEnv Info (js ''hi'') None None)
   \<and> ConsoleLog (js ''2026-01-01T00:00:00.000Z [INFO] hi'')
       \<in> set (snd (log' exampleEnv shortTargetsLogger Info (js ''hi'') None None))"
proof -
  let ?L = "shortTargetsLogger"
  let ?hello = "(mergeEntry ?L (callEntry exampleEnv Info (js ''hello'') None None))
                  \<lparr>e_message := (if (0::int) < 3 \<and> 3 < int (length (js ''hello''))
                                   then take (nat 3) (js ''hello'') @ [0x2026] else js ''hello'')\<rparr>"
  let ?hi = "(mergeEntry ?L (callEntry exampleEnv Info (js ''hi'') None None))
                  \<lparr>e_message := (if (0::int) < 3 \<and> 3 < int (length (js ''hi''))
                                   then take (nat 3) (js ''hi'') @ [0x2026] else js ''hi'')\<rparr>"
  have m3: "maxMessageLength (config shortLogger) = Some 3"
    by (simp add: shortLogger_def example_defs)
  have m0: "maxMessageLength (config unlimitedLogger) = Some 0"
    by (simp add: unlimitedLogger_def example_defs)
  have hello: "e_message (entryWith Info (js ''hello'')) = js ''hello''"
    and hi: "e_message (entryWith Info (js ''hi'')) = js ''hi''"
    by (simp_all add: entryWith_def)
  have len: "length (js ''hello'') = 5" "length (js ''hi'') = 2" "take 3 (js ''hello'') = js ''hel''"
    by (simp_all add: js_def)
  have none: "c_maxMessageLength emptyConfig = None"
    by (simp add: emptyConfig_def)
  have cfg: "config ?L = constructConfig exampleEnv (allTargetsConfig\<lparr>c_maxMessageLength := Some 3\<rparr>)"
    by (simp add: shortTargetsLogger_def newLogger_def Logger_constructor_def Let_def
        updateFilterSets_def initFileOutput_frame startTimeRotation_def split: option.splits)
  have t3: "maxMessageLength (config ?L) = Some 3"
    by (simp add: cfg constructConfig_def Let_def allTargetsConfig_def emptyConfig_def)
  have on: "console (output (config ?L)) = Some True"
    "file (output (config ?L)) \<noteq> None \<and> fileWriter ?L"
    "custom (output (config ?L)) \<noteq> None"
    by (simp_all add: shortTargetsLogger_def allTargetsConfig_def logger_eval)
  have adm: "admitted exampleEnv ?L (callEntry exampleEnv Info m None None)" for m
    by (simp add: admitted_def shouldLog_def shouldFilterByTags_def shouldSample_def cfg
        constructConfig_def Let_def allTargetsConfig_def emptyConfig_def callEntry_def)
  have lines: "consoleLine exampleEnv ?L ?hello = js ''2026-01-01T00:00:00.000Z [INFO] hel'' @ [0x2026]"
    "fileLine exampleEnv ?L ?hello = js ''2026-01-01T00:00:00.000Z [INFO] hel'' @ [0x2026, 0x0A]"
    "consoleLine exampleEnv ?L ?hi = js ''2026-01-01T00:00:00.000Z [INFO] hi''"
    by (simp_all add: cfg constructConfig_def allTargetsConfig_def emptyConfig_def exampleEnv_def
        resolveOutputConfig_def isTTY_def line_eval js_def Let_def)
  note old1 = C9_truncation [of shortLogger 3 "entryWith Info (js ''hello'')" emptyConfig exampleEnv
      Info "js ''hello''" None None]
  note old2 = C9_truncation [of shortLogger 3 "entryWith Info (js ''hi'')" emptyConfig exampleEnv
      Info "js ''hello''" None None]
  note old3 = C9_truncation [of unlimitedLogger 0 "entryWith Info (js ''hello'')" emptyConfig
      exampleEnv Info "js ''hello''" None None]
  from old1 m3 hello len have a: "e_message (truncateMessageIfNeeded shortLogger
      (entryWith Info (js ''hello''))) = js ''hel'' @ [0x2026]"
    by simp
  from old2 m3 hi len have b: "truncateMessageIfNeeded shortLogger (entryWith Info (js ''hi''))
      = entryWith Info (js ''hi'')"
    by simp
  from old3 m0 have c: "truncateMessageIfNeeded unlimitedLogger (entryWith Info (js ''hello''))
      = entryWith Info (js ''hello'')"
    by blast
  from old1 none have d: "maxMessageLength (config (fst (Logger_constructor exampleEnv emptyConfig)))
      = Some 32768"
    by blast
  from C9_truncation [of ?L 3 "entryWith Info (js ''hello'')" emptyConfig exampleEnv
      Info "js ''hello''" None None] t3 adm
  have "writtenToTargets exampleEnv ?L ?hello
          (snd (log' exampleEnv ?L Info (js ''hello'') None None))"
    by blast
  then have w1: "ConsoleLog (consoleLine exampleEnv ?L ?hello)
          \<in> set (snd (log' exampleEnv ?L Info (js ''hello'') None None))"
    and w2: "FileWrite (fileLine exampleEnv ?L ?hello)
          \<in> set (snd (log' exampleEnv ?L Info (js ''hello'') None None))"
    and w3: "CustomSink (consoleLine exampleEnv ?L ?hello)
          \<in> set (snd (log' exampleEnv ?L Info (js ''hello'') None None))"
    unfolding writtenToTargets_def using on by (simp_all only: if_True simp_thms)
  from C9_truncation [of ?L 3 "entryWith Info (js ''hi'')" emptyConfig exampleEnv
      Info "js ''hi''" None None] t3 adm
  have "writtenToTargets exampleEnv ?L ?hi (snd (log' exampleEnv ?L Info (js ''hi'') None None))"
    by blast
  then have w4: "ConsoleLog (consoleLine exampleEnv ?L ?hi)
          \<in> set (snd (log' exampleEnv ?L Info (js ''hi'') None None))"
    unfolding writtenToTargets_def using on by (simp only: if_True simp_thms)
  note e1 = w1 [unfolded lines] and e2 = w2 [unfolded lines] and e3 = w3 [unfolded lines]
    and e4 = w4 [unfolded lines]
  have basics: "(0::int) < 3" "3 < int (length (e_message (entryWith Info (js ''hello''))))"
    "int (length (e_message (entryWith Info (js ''hi'')))) \<le> 3"
    by (simp_all add: hello hi len)
  show ?thesis
    using m3 basics a b m0 c none d t3 adm e1 e2 e3 e4 by blast
qed


subsection \<open>Ending a timer\<close>

text \<open>
  C7, as stated, fails on the code: \<open>endPerformance\<close> hands its message to \<open>log\<close>,
  so the level gate, the tag filter and the sampler decide whether anything is written. On
  a Logger whose minimum level is \<open>warn\<close>, ending the running timer \<open>load-1000-0.5\<close>
  at severity \<open>info\<close> writes nothing to any target; the record is removed from the map
  all the same.
\<close>

theorem C7_counterexample:
  "map_of (performanceData (setLevel Warn timedLogger)) (js ''load-1000-0.5'') = Some timedRecord
   \<and> level (config (setLevel Warn timedLogger)) = Warn
   \<and> snd (endPerformance exampleEnv 1250 (js ''load-1000-0.5'') Info (setLevel Warn timedLogger)) = []
   \<and> performanceData (fst (endPerformance exampleEnv 1250 (js ''load-1000-0.5'') Info
        (setLevel Warn timedLogger))) = []"
proof -
  have d: "performanceData (setLevel Warn timedLogger) = [(js ''load-1000-0.5'', timedRecord)]"
    by (simp add: setLevel_def timedLogger_data)
  have l: "level (config (setLevel Warn timedLogger)) = Warn"
    by (simp add: setLevel_def)
  have g: "log' exampleEnv (setLevel Warn timedLogger) Info m x None = (setLevel Warn timedLogger, [])"
    for m x
    by (rule log'_gated) (simp add: shouldLog_def l)
  have h: "map_of (performanceData (setLevel Warn timedLogger)) (js ''load-1000-0.5'') = Some timedRecord"
    by (simp add: d)
  show ?thesis
    using h l by (simp add: endPerformance_found [OF h] g d)
qed

text \<open>
  C7, amended: \<open>endPerformance(id, level)\<close> with an id absent from the map calls the
  Logger's own \<open>warn\<close> with the text for a missing id followed by the id, and leaves the
  map unchanged; with the id present it calls \<open>log\<close> at the given severity with the
  message naming the operation and the duration \<open>now - start\<close>, with the original data
  merged with \<open>duration\<close>, \<open>startTime\<close> and \<open>endTime\<close> attached, and removes exactly that
  record from the map whether or not the call is written. In both cases the entry (with
  the Logger's tags and context merged in, and the message cut to the limit) is written to
  every active target when the level gate, the tag filter and the sampler admit it, and
  nothing at all is written when the level is below the Logger's minimum.
\<close>

theorem C7_endPerformance:
  "(map_of (performanceData L) id' = None \<longrightarrow>
      endPerformance env t id' lvl L = log' env L Warn (MSG_perf_missing @ id') None None
      \<and> performanceData (fst (endPerformance env t id' lvl L)) = performanceData L
      \<and> (admitted env L (callEntry env Warn (MSG_perf_missing @ id') None None) \<longrightarrow>
           writtenToTargets env L
             (truncateMessageIfNeeded L
                (mergeEntry L (callEntry env Warn (MSG_perf_missing @ id') None None)))
             (snd (endPerformance env t id' lvl L)))
      \<and> (\<not> shouldLog L Warn \<longrightarrow> snd (endPerformance env t id' lvl L) = []))
   \<and> (map_of (performanceData L) id' = Some pd \<longrightarrow>
      endPerformance env t id' lvl L =
        ((fst (log' env L lvl (perfMessage pd t) (Some (JObj (perfLogData pd t))) None))
           \<lparr>performanceData := AList.delete id' (performanceData L)\<rparr>,
         snd (log' env L lvl (perfMessage pd t) (Some (JObj (perfLogData pd t))) None))
      \<and> map_of (performanceData (fst (endPerformance env t id' lvl L)))
          = (map_of (performanceData L))(id' := None)
      \<and> (admitted env L
            (callEntry env lvl (perfMessage pd t) (Some (JObj (perfLogData pd t))) None) \<longrightarrow>
           writtenToTargets env L
             (truncateMessageIfNeeded L
                (mergeEntry L
                   (callEntry env lvl (perfMessage pd t) (Some (JObj (perfLogData pd t))) None)))
             (snd (endPerformance env t id' lvl L)))
      \<and> (\<not> shouldLog L lvl \<longrightarrow> snd (endPerformance env t id' lvl L) = [])
      \<and> perfMessage pd t
          = MSG_perf @ operation pd @ MSG_took @ numberToString (t - startTime pd) @ js ''ms''
      \<and> map_of (perfLogData pd t) (js ''duration'') = Some (JNum (t - startTime pd))
      \<and> map_of (perfLogData pd t) (js ''startTime'') = Some (JNum (startTime pd))
      \<and> map_of (perfLogData pd t) (js ''endTime'') = Some (JNum t)
      \<and> (k \<noteq> js ''duration'' \<and> k \<noteq> js ''startTime'' \<and> k \<noteq> js ''endTime'' \<longrightarrow>
           map_of (perfLogData pd t) k = map_of (case data pd of None \<Rightarrow> [] | Some d \<Rightarrow> d) k))"
proof -
  have names: "js ''duration'' \<noteq> js ''startTime''" "js ''duration'' \<noteq> js ''endTime''"
    "js ''startTime'' \<noteq> js ''endTime''"
    by (simp_all add: js_def)
  have missing: "endPerformance env t id' lvl L = log' env L Warn (MSG_perf_missing @ id') None None"
    "performanceData (fst (endPerformance env t id' lvl L)) = performanceData L"
    if "map_of (performanceData L) id' = None"
    using that by (simp_all add: endPerformance_missing log'_frame)
  have missing_written: "writtenToTargets env L
             (truncateMessageIfNeeded L
                (mergeEntry L (callEntry env Warn (MSG_perf_missing @ id') None None)))
             (snd (endPerformance env t id' lvl L))"
    if "map_of (performanceData L) id' = None"
      and "admitted env L (callEntry env Warn (MSG_perf_missing @ id') None None)"
    using log'_admitted [OF that(2)] by (simp only: missing(1) [OF that(1)])
  have missing_gated: "snd (endPerformance env t id' lvl L) = []"
    if "map_of (performanceData L) id' = None" and "\<not> shouldLog L Warn"
    by (simp add: missing(1) [OF that(1)] log'_gated [OF that(2)])
  have found: "endPerformance env t id' lvl L =
        ((fst (log' env L lvl (perfMessage pd t) (Some (JObj (perfLogData pd t))) None))
           \<lparr>performanceData := AList.delete id' (performanceData L)\<rparr>,
         snd (log' env L lvl (perfMessage pd t) (Some (JObj (perfLogData pd t))) None))"
    "map_of (performanceData (fst (endPerformance env t id' lvl L)))
          = (map_of (performanceData L))(id' := None)"
    if "map_of (performanceData L) id' = Some pd"
    using that by (simp_all add: endPerformance_found delete_conv')
  have found_written: "writtenToTargets env L
             (truncateMessageIfNeeded L
                (mergeEntry L
                   (callEntry env lvl (perfMessage pd t) (Some (JObj (perfLogData pd t))) None)))
             (snd (endPerformance env t id' lvl L))"
    if "map_of (performanceData L) id' = Some pd"
      and "admitted env L
            (callEntry env lvl (perfMessage pd t) (Some (JObj (perfLogData pd t))) None)"
    using log'_admitted [OF that(2)] by (simp add: found(1) [OF that(1)])
  have found_gated: "snd (endPerformance env t id' lvl L) = []"
    if "map_of (performanceData L) id' = Some pd" and "\<not> shouldLog L lvl"
    by (simp add: found(1) [OF that(1)] log'_gated [OF that(2)])
  have data: "map_of (perfLogData pd t) (js ''duration'') = Some (JNum (t - startTime pd))"
    "map_of (perfLogData pd t) (js ''startTime'') = Some (JNum (startTime pd))"
    "map_of (perfLogData pd t) (js ''endTime'') = Some (JNum t)"
    "k \<noteq> js ''duration'' \<and> k \<noteq> js ''startTime'' \<and> k \<noteq> js ''endTime'' \<longrightarrow>
           map_of (perfLogData pd t) k = map_of (case data pd of None \<Rightarrow> [] | Some d \<Rightarrow> d) k"
    using names by (simp_all add: perfLogData_lookup)
  have msg: "perfMessage pd t
          = MSG_perf @ operation pd @ MSG_took @ numberToString (t - startTime pd) @ js ''ms''"
    by (simp add: perfMessage_def)
  show ?thesis
    using missing missing_written missing_gated found found_written found_gated data msg
    by blast
qed

lemma timedTargetsLogger_state:
  "performanceData timedTargetsLogger = [(js ''load-1000-0.5'', timedRecord)]"
  "config timedTargetsLogger = constructConfig exampleEnv allTargetsConfig"
  "fileWriter timedTargetsLogger"
proof -
  have c: "config allTargetsLogger = constructConfig exampleEnv allTargetsConfig"
    by (simp add: allTargetsLogger_def newLogger_def Logger_constructor_def Let_def
        updateFilterSets_def initFileOutput_frame startTimeRotation_def split: option.splits)
  have w: "fileWriter allTargetsLogger"
    by (simp add: allTargetsLogger_def allTargetsConfig_def logger_eval)
  show "performanceData timedTargetsLogger = [(js ''load-1000-0.5'', timedRecord)]"
    by (simp add: timedTargetsLogger_def startPerformance_def Let_def allTargetsLogger_def
        newLogger_def constructor_fresh MAX_PERFORMANCE_ENTRIES_def numberToString_def
        digits.simps js_def timedRecord_def)
  show "config timedTargetsLogger = constructConfig exampleEnv allTargetsConfig"
    by (simp add: timedTargetsLogger_def startPerformance_def Let_def c)
  show "fileWriter timedTargetsLogger"
    by (simp add: timedTargetsLogger_def startPerformance_def Let_def w)
qed

theorem C7_endPerformance_witness:
  "map_of (performanceData timedTargetsLogger) (js ''nope'') = None
   \<and> admitted exampleEnv timedTargetsLogger
        (callEntry exampleEnv Warn (MSG_perf_missing @ js ''nope'') None None)
   \<and> ConsoleLog (js ''2026-01-01T00:00:00.000Z [WARN] '' @ MSG_perf_missing @ js ''nope'')
       \<in> set (snd (endPerformance exampleEnv 1250 (js ''nope'') Info timedTargetsLogger))
   \<and> FileWrite (js ''2026-01-01T00:00:00.000Z [WARN] '' @ MSG_perf_missing @ js ''nope'' @ [0x0A])
       \<in> set (snd (endPerformance exampleEnv 1250 (js ''nope'') Info timedTargetsLogger))
   \<and> CustomSink (js ''2026-01-01T00:00:00.000Z [WARN] '' @ MSG_perf_missing @ js ''nope'')
       \<in> set (snd (endPerformance exampleEnv 1250 (js ''nope'') Info timedTargetsLogger))
   \<and> performanceData (fst (endPerformance exampleEnv 1250 (js ''nope'') Info timedTargetsLogger))
       = performanceData timedTargetsLogger
   \<and> map_of (performanceData timedTargetsLogger) (js ''load-1000-0.5'') = Some timedRecord
   \<and> admitted exampleEnv timedTargetsLogger
        (callEntry exampleEnv Info (perfMessage timedRecord 1250)
           (Some (JObj (perfLogData timedRecord 1250))) None)
   \<and> ConsoleLog (js ''2026-01-01T00:00:00.000Z [INFO] '' @ MSG_perf @ js ''load'' @ MSG_took
                  @ js ''250ms {}'')
       \<in> set (snd (endPerformance exampleEnv 1250 (js ''load-1000-0.5'') Info timedTargetsLogger))
   \<and> FileWrite (js ''2026-01-01T00:00:00.000Z [INFO] '' @ MSG_perf @ js ''load'' @ MSG_took
                  @ js ''250ms {}'' @ [0x0A])
       \<in> set (snd (endPerformance exampleEnv 1250 (js ''load-1000-0.5'') Info timedTargetsLogger))
   \<and> CustomSink (js ''2026-01-01T00:00:00.000Z [INFO] '' @ MSG_perf @ js ''load'' @ MSG_took
                  @ js ''250ms {}'')
       \<in> set (snd (endPerformance exampleEnv 1250 (js ''load-1000-0.5'') Info timedTargetsLogger))
   \<and> map_of (performanceData (fst (endPerformance exampleEnv 1250 (js ''load-1000-0.5'') Info
         timedTargetsLogger))) (js ''load-1000-0.5'') = None
   \<and> \<not> shouldLog (setLevel Error timedTargetsLogger) Warn
   \<and> map_of (performanceData (setLevel Error timedTargetsLogger)) (js ''nope'') = None
   \<and> snd (endPerformance exampleEnv 1250 (js ''nope'') Info (setLevel Error timedTargetsLogger)) = []
   \<and> \<not> shouldLog (setLevel Error timedTargetsLogger) Info
   \<and> map_of (performanceData (setLevel Error timedTargetsLogger)) (js ''load-1000-0.5'')
       = Some timedRecord
   \<and> snd (endPerformance exampleEnv 1250 (js ''load-1000-0.5'') Info
        (setLevel Error timedTargetsLogger)) = []
   \<and> map_of (performanceData (fst (endPerformance exampleEnv 1250 (js ''load-1000-0.5'') Info
         (setLevel Error timedTargetsLogger)))) (js ''load-1000-0.5'') = None
   \<and> perfMessage timedRecord 1250 = MSG_perf @ js ''load'' @ MSG_took @ js ''250ms''
   \<and> map_of (perfLogData timedRecord 1250) (js ''duration'') = Some (JNum 250)
   \<and> js ''rows'' \<noteq> js ''duration'' \<and> js ''rows'' \<noteq> js ''startTime''
   \<and> js ''rows'' \<noteq> js ''endTime''
   \<and> map_of (perfLogData timedRecord 1250) (js ''rows'') = Some (JNum 7)"
proof -
  let ?L = "timedTargetsLogger"
  let ?G = "setLevel Error timedTargetsLogger"
  let ?id = "js ''load-1000-0.5''"
  let ?warn = "callEntry exampleEnv Warn (MSG_perf_missing @ js ''nope'') None None"
  let ?info = "callEntry exampleEnv Info (perfMessage timedRecord 1250)
                 (Some (JObj (perfLogData timedRecord 1250))) None"
  let ?sentW = "truncateMessageIfNeeded ?L (mergeEntry ?L ?warn)"
  let ?sentI = "truncateMessageIfNeeded ?L (mergeEntry ?L ?info)"
  note st = timedTargetsLogger_state
  have cfg: "level (config ?L) = Info" "filter' (config ?L) = None" "sampling (config ?L) = None"
    by (simp_all add: st constructConfig_def Let_def allTargetsConfig_def emptyConfig_def)
  have on: "console (output (config ?L)) = Some True"
    "file (output (config ?L)) \<noteq> None \<and> fileWriter ?L"
    "custom (output (config ?L)) \<noteq> None"
    by (simp_all add: st constructConfig_def Let_def allTargetsConfig_def emptyConfig_def
        resolveOutputConfig_def)
  have miss: "map_of (performanceData ?L) (js ''nope'') = None"
    by (simp add: st js_def)
  have hit: "map_of (performanceData ?L) ?id = Some timedRecord"
    by (simp add: st)
  have admW: "admitted exampleEnv ?L ?warn" and admI: "admitted exampleEnv ?L ?info"
    by (simp_all add: admitted_def shouldLog_def shouldFilterByTags_def shouldSample_def cfg
        callEntry_def)
  have gdata: "performanceData ?G = performanceData ?L" "level (config ?G) = Error"
    by (simp_all add: setLevel_def)
  have gmiss: "map_of (performanceData ?G) (js ''nope'') = None"
    and ghit: "map_of (performanceData ?G) ?id = Some timedRecord"
    by (simp_all add: gdata miss hit)
  have gated: "\<not> shouldLog ?G Warn" "\<not> shouldLog ?G Info"
    by (simp_all add: shouldLog_def gdata)
  have names: "js ''rows'' \<noteq> js ''duration''" "js ''rows'' \<noteq> js ''startTime''"
    "js ''rows'' \<noteq> js ''endTime''"
    by (simp_all add: js_def)
  have trec: "operation timedRecord = js ''load''" "startTime timedRecord = 1000"
    "data timedRecord = Some [(js ''rows'', JNum 7)]"
    by (simp_all add: timedRecord_def)
  have num: "numberToString 250 = js ''250''"
    by (simp add: numberToString_def digits.simps js_def)
  have lines:
    "consoleLine exampleEnv ?L ?sentW
       = js ''2026-01-01T00:00:00.000Z [WARN] '' @ MSG_perf_missing @ js ''nope''"
    "fileLine exampleEnv ?L ?sentW
       = js ''2026-01-01T00:00:00.000Z [WARN] '' @ MSG_perf_missing @ js ''nope'' @ [0x0A]"
    "consoleLine exampleEnv ?L ?sentI
       = js ''2026-01-01T00:00:00.000Z [INFO] '' @ MSG_perf @ js ''load'' @ MSG_took
         @ js ''250ms {}''"
    "fileLine exampleEnv ?L ?sentI
       = js ''2026-01-01T00:00:00.000Z [INFO] '' @ MSG_perf @ js ''load'' @ MSG_took
         @ js ''250ms {}'' @ [0x0A]"
    by (simp_all add: st constructConfig_def allTargetsConfig_def emptyConfig_def exampleEnv_def
        resolveOutputConfig_def isTTY_def line_eval truncateMessageIfNeeded_def perfMessage_def
        MSG_perf_missing_def MSG_perf_def MSG_took_def trec num js_def Let_def safeStringify_def)
  note a = C7_endPerformance [of ?L "js ''nope''" exampleEnv 1250 Info timedRecord "js ''rows''"]
  note b = C7_endPerformance [of ?L ?id exampleEnv 1250 Info timedRecord "js ''rows''"]
  note c = C7_endPerformance [of ?G "js ''nope''" exampleEnv 1250 Info timedRecord "js ''rows''"]
  note d = C7_endPerformance [of ?G ?id exampleEnv 1250 Info timedRecord "js ''rows''"]
  from a miss admW
  have wW: "writtenToTargets exampleEnv ?L ?sentW
              (snd (endPerformance exampleEnv 1250 (js ''nope'') Info ?L))"
    and keep: "performanceData (fst (endPerformance exampleEnv 1250 (js ''nope'') Info ?L))
              = performanceData ?L"
    by blast+
  from b hit admI
  have wI: "writtenToTargets exampleEnv ?L ?sentI (snd (endPerformance exampleEnv 1250 ?id Info ?L))"
    and del: "map_of (performanceData (fst (endPerformance exampleEnv 1250 ?id Info ?L)))
              = (map_of (performanceData ?L))(?id := None)"
    and msg: "perfMessage timedRecord 1250 = MSG_perf @ operation timedRecord @ MSG_took
              @ numberToString (1250 - startTime timedRecord) @ js ''ms''"
    and dur: "map_of (perfLogData timedRecord 1250) (js ''duration'')
              = Some (JNum (1250 - startTime timedRecord))"
    by blast+
  from b hit names
  have rows: "map_of (perfLogData timedRecord 1250) (js ''rows'')
              = map_of (case data timedRecord of None \<Rightarrow> [] | Some d \<Rightarrow> d) (js ''rows'')"
    by blast
  from c gmiss gated
  have g1: "snd (endPerformance exampleEnv 1250 (js ''nope'') Info ?G) = []"
    by blast
  from d ghit gated
  have g2: "snd (endPerformance exampleEnv 1250 ?id Info ?G) = []"
    and gdel: "map_of (performanceData (fst (endPerformance exampleEnv 1250 ?id Info ?G)))
               = (map_of (performanceData ?G))(?id := None)"
    by blast+
  from wW have w1: "ConsoleLog (consoleLine exampleEnv ?L ?sentW)
          \<in> set (snd (endPerformance exampleEnv 1250 (js ''nope'') Info ?L))"
    and w2: "FileWrite (fileLine exampleEnv ?L ?sentW)
          \<in> set (snd (endPerformance exampleEnv 1250 (js ''nope'') Info ?L))"
    and w3: "CustomSink (consoleLine exampleEnv ?L ?sentW)
          \<in> set (snd (endPerformance exampleEnv 1250 (js ''nope'') Info ?L))"
    unfolding writtenToTargets_def using on by (simp_all only: if_True simp_thms)
  from wI have w4: "ConsoleLog (consoleLine exampleEnv ?L ?sentI)
          \<in> set (snd (endPerformance exampleEnv 1250 ?id Info ?L))"
    and w5: "FileWrite (fileLine exampleEnv ?L ?sentI)
          \<in> set (snd (endPerformance exampleEnv 1250 ?id Info ?L))"
    and w6: "CustomSink (consoleLine exampleEnv ?L ?sentI)
          \<in> set (snd (endPerformance exampleEnv 1250 ?id Info ?L))"
    unfolding writtenToTargets_def using on by (simp_all only: if_True simp_thms)
  note e1 = w1 [unfolded lines] and e2 = w2 [unfolded lines] and e3 = w3 [unfolded lines]
    and e4 = w4 [unfolded lines] and e5 = w5 [unfolded lines] and e6 = w6 [unfolded lines]
  have del': "map_of (performanceData (fst (endPerformance exampleEnv 1250 ?id Info ?L))) ?id = None"
    by (simp add: del)
  have gdel': "map_of (performanceData (fst (endPerformance exampleEnv 1250 ?id Info ?G))) ?id = None"
    by (simp add: gdel)
  have msg': "perfMessage timedRecord 1250 = MSG_perf @ js ''load'' @ MSG_took @ js ''250ms''"
    by (simp add: msg trec num js_def)
  have dur': "map_of (perfLogData timedRecord 1250) (js ''duration'') = Some (JNum 250)"
    by (simp add: dur trec)
  have rows': "map_of (perfLogData timedRecord 1250) (js ''rows'') = Some (JNum 7)"
    by (simp add: rows trec)
  show ?thesis
    using miss admW e1 e2 e3 keep hit admI e4 e5 e6 del' gated gmiss g1 ghit g2 gdel'
      msg' dur' names rows'
    by blast
qed


subsection \<open>The tag filter\<close>













subsection \<open>Console redirection\<close>

text \<open>
  One \<open>redirect\<close> followed by \<open>restore\<close>: the holder is empty again and each console
  method behaves, on every argument list, as the method installed before the
  \<open>redirect\<close>; in between, the Logger's own output goes to those methods.
\<close>

lemma redirect_then_restore:
  "originalConsole (restoreConsole (redirectConsoleToLogger t g)) = None
   \<and> invoke str (con_log (g_console (restoreConsole (redirectConsoleToLogger t g)))) args
       = invoke str (con_log (g_console g)) args
   \<and> invoke str (con_info (g_console (restoreConsole (redirectConsoleToLogger t g)))) args
       = invoke str (con_info (g_console g)) args
   \<and> invoke str (con_warn (g_console (restoreConsole (redirectConsoleToLogger t g)))) args
       = invoke str (con_warn (g_console g)) args
   \<and> invoke str (con_error (g_console (restoreConsole (redirectConsoleToLogger t g)))) args
       = invoke str (con_error (g_console g)) args
   \<and> invoke str (con_debug (g_console (restoreConsole (redirectConsoleToLogger t g)))) args
       = invoke str (con_debug (g_console g)) args
   \<and> invoke str (con_log (getConsoleForOutput (redirectConsoleToLogger t g))) args
       = invoke str (con_log (g_console g)) args"
  by (simp add: redirectConsoleToLogger_def restoreConsole_def Let_def getConsoleForOutput_def)

text \<open>
  C1 fails on the code: \<open>redirectConsoleToLogger\<close> assigns \<open>_originalConsole\<close> without
  looking at what it holds, so a second \<open>redirect\<close> with no \<open>restore\<close> in between
  replaces the true original by the forwarders of the first one. Starting from the
  console of the runtime, where \<open>console.log\<close> and \<open>console.warn\<close> are the native
  functions: while redirected twice, the console that the Logger writes its own lines to
  forwards to the Logger of the first redirection (the recursion that the holder is there
  to prevent); after \<open>restore\<close> the holder is empty, and \<open>console.log\<close> and
  \<open>console.warn\<close> still forward to that Logger, so the true original is lost.
\<close>

theorem C1_double_redirect:
  "originalConsole nativeGlobal = None
   \<and> invoke exampleString (con_log (g_console nativeGlobal)) [JStr (js ''x'')]
       = CallExisting 0 [JStr (js ''x'')]
   \<and> invoke exampleString (con_warn (g_console nativeGlobal)) [JStr (js ''x'')]
       = CallExisting 2 [JStr (js ''x'')]
   \<and> invoke exampleString (con_log (getConsoleForOutput twiceRedirected)) [JStr (js ''line'')]
       = CallLogger (LoggerRef 1) Info (js ''line'') None
   \<and> originalConsole (restoreConsole twiceRedirected) = None
   \<and> invoke exampleString (con_log (g_console (restoreConsole twiceRedirected))) [JStr (js ''x'')]
       = CallLogger (LoggerRef 1) Info (js ''x'') None
   \<and> invoke exampleString (con_warn (g_console (restoreConsole twiceRedirected))) [JStr (js ''x'')]
       = CallLogger (LoggerRef 1) Warn (js ''x'') None
   \<and> restoreConsole (restoreConsole twiceRedirected) = restoreConsole twiceRedirected"
  by (simp add: twiceRedirected_def nativeGlobal_def redirectConsoleToLogger_def
      restoreConsole_def getConsoleForOutput_def messageOf_def Let_def)

end
